theory Spec2Isabelle
  imports Main "HOL-Library.Word"
begin

unbundle bit_operations_syntax

section \<open>Errors\<close>

text \<open>
  Go errors as values. The typed errors of the packages \<open>parsing\<close> and \<open>txn\<close> are
  constructors of their own. \<open>fmt.Errorf("ctx: %w", err)\<close> keeps \<open>err\<close> in the chain
  that \<open>errors.As\<close> walks (\<open>Errorf_w\<close>); \<open>fmt.Errorf("ctx: %s", err)\<close> keeps only the
  text of \<open>err\<close>, so the chain ends there (\<open>Errorf_s\<close>). \<open>Panic\<close> stands for a run-time
  panic (nil dereference, index out of range).
\<close>

datatype error =
    ErrInvalidSyntax string
  | ErrEmptyStatement
  | ErrNoSingleStatement
  | ErrNoTopLevelUpdateInsertDelete
  | ErrNoTopLevelCreate
  | ErrJoinOrSubquery
  | ErrReturningClause
  | ErrSystemTableReferencing
  | ErrNonDeterministicFunction
  | ErrNoForUpdateOrShare
  | ErrInvalidColumnType string
  | ErrMultiTableReference string string
  | ErrRowCountExceeded "64 word" "64 word"
  | errEmptyNode
  | errUnexpectedNodeType
  | ErrorNew string
  | ErrTxClosed
  | Errorf_w string error
  | Errorf_s string error
  | Panic string

text \<open>\<open>if err := f(); err != nil { return fmt.Errorf("ctx: %w", err) }\<close>\<close>

definition wrap_w :: "string \<Rightarrow> error option \<Rightarrow> error option" where
  "wrap_w ctx r = map_option (Errorf_w ctx) r"

text \<open>The error \<open>errors.As\<close> reaches at the end of the \<open>%w\<close> chain.\<close>

fun cause :: "error \<Rightarrow> error" where
  "cause (Errorf_w ctx e) = cause e"
| "cause e = e"

section \<open>The parse tree\<close>

text \<open>
  The nodes of the parser's tree (\<open>pg_query.Node\<close>, a protobuf oneof) with the fields the
  validator reads. A nil \<open>*Node\<close> is \<open>None\<close>. The \<open>Relation\<close> of an INSERT, UPDATE,
  DELETE or CREATE TABLE is a \<open>RangeVar\<close> the grammar always supplies. A column's
  \<open>TypeName\<close> is its list of \<open>Names\<close>, or \<open>None\<close> for a column without a type.
  \<open>N_Other\<close> is any node kind the validator has no case for (a column reference, a
  constant, a function call, ...), with its children.
\<close>

datatype RangeVar = RangeVar (Relname: string)

datatype Node =
    N_RangeVar RangeVar
  | N_InsertStmt RangeVar "Node option" "Node list"
    \<comment> \<open>Relation, SelectStmt, ReturningList\<close>
  | N_SelectStmt "Node list" "Node list" "Node option" "Node list" "Node list"
    \<comment> \<open>TargetList, FromClause, WhereClause, ValuesLists, LockingClause\<close>
  | N_UpdateStmt RangeVar "Node list" "Node option" "Node list" "Node list"
    \<comment> \<open>Relation, TargetList, WhereClause, FromClause, ReturningList\<close>
  | N_DeleteStmt RangeVar "Node option" "Node list"
    \<comment> \<open>Relation, WhereClause, ReturningList\<close>
  | N_RangeSubselect "Node option"
    \<comment> \<open>Subquery\<close>
  | N_JoinExpr "Node option" "Node option"
    \<comment> \<open>Larg, Rarg\<close>
  | N_A_Expr "Node option" "Node option"
    \<comment> \<open>Lexpr, Rexpr\<close>
  | N_BoolExpr "Node list"
    \<comment> \<open>Args\<close>
  | N_ResTarget "Node option"
    \<comment> \<open>Val\<close>
  | N_SubLink "Node option"
    \<comment> \<open>Subselect\<close>
  | N_List "Node list"
    \<comment> \<open>Items\<close>
  | N_SqlvalueFunction
  | N_String string
    \<comment> \<open>Str\<close>
  | N_ColumnDef string "Node list option" "Node list"
    \<comment> \<open>Colname, TypeName.Names, Constraints\<close>
  | N_Constraint string "Node list"
    \<comment> \<open>a column-level or table-level constraint: its kind and its children\<close>
  | N_CreateStmt RangeVar "Node list" "Node list option"
    \<comment> \<open>Relation, TableElts, OfTypename.Names\<close>
  | N_Other string "Node list"

text \<open>\<open>strings.HasPrefix(s, prefix)\<close>\<close>

definition HasPrefix :: "string \<Rightarrow> string \<Rightarrow> bool" where
  "HasPrefix s pre = (take (length pre) s = pre)"

section \<open>The query validator\<close>

record QueryValidator =
  systemTablePrefix :: string
  acceptedTypesNames :: "string list"

text \<open>
  \<open>New\<close> flattens \<open>parsing.AcceptedTypes\<close> (a table of another package, taken as the
  parameter \<open>AcceptedTypes\<close>: the \<open>Names\<close> of each entry) into one slice.
\<close>

definition New :: "string list list \<Rightarrow> string \<Rightarrow> QueryValidator" where
  "New AcceptedTypes prefix =
     \<lparr>systemTablePrefix = prefix, acceptedTypesNames = concat AcceptedTypes\<rparr>"

definition checkNonEmptyStatement :: "Node list \<Rightarrow> error option" where
  "checkNonEmptyStatement stmts = (if length stmts = 0 then Some ErrEmptyStatement else None)"

definition checkSingleStatement :: "Node list \<Rightarrow> error option" where
  "checkSingleStatement stmts = (if length stmts \<noteq> 1 then Some ErrNoSingleStatement else None)"

fun checkTopLevelUpdateInsertDelete :: "Node \<Rightarrow> error option" where
  "checkTopLevelUpdateInsertDelete (N_UpdateStmt rel tgt wh fr ret) = None"
| "checkTopLevelUpdateInsertDelete (N_InsertStmt rel sel ret) = None"
| "checkTopLevelUpdateInsertDelete (N_DeleteStmt rel wh ret) = None"
| "checkTopLevelUpdateInsertDelete n = Some ErrNoTopLevelUpdateInsertDelete"

fun checkTopLevelCreate :: "Node \<Rightarrow> error option" where
  "checkTopLevelCreate (N_CreateStmt rel elts oftype) = None"
| "checkTopLevelCreate n = Some ErrNoTopLevelCreate"

text \<open>\<open>checkNoForUpdateOrShare\<close> receives the \<open>*SelectStmt\<close> of a node (nil for another kind).\<close>

fun checkNoForUpdateOrShare :: "Node \<Rightarrow> error option" where
  "checkNoForUpdateOrShare (N_SelectStmt tgt fr wh vl lock) =
     (if length lock > 0 then Some ErrNoForUpdateOrShare else None)"
| "checkNoForUpdateOrShare n = Some errEmptyNode"

fun checkNoReturningClause :: "Node option \<Rightarrow> error option" where
  "checkNoReturningClause None = Some errEmptyNode"
| "checkNoReturningClause (Some (N_UpdateStmt rel tgt wh fr ret)) =
     (if length ret > 0 then Some ErrReturningClause else None)"
| "checkNoReturningClause (Some (N_InsertStmt rel sel ret)) =
     (if length ret > 0 then Some ErrReturningClause else None)"
| "checkNoReturningClause (Some (N_DeleteStmt rel wh ret)) =
     (if length ret > 0 then Some ErrReturningClause else None)"
| "checkNoReturningClause (Some n) = Some errUnexpectedNodeType"

text \<open>
  The recursive walks. A \<open>for\<close> loop over a slice of nodes that returns at the first error
  is the \<open>_each\<close> function beside the walk; the caller adds the loop's context.
\<close>

fun checkNoSystemTablesReferencing :: "Node option \<Rightarrow> string \<Rightarrow> error option"
  and checkNoSystemTablesReferencing_each :: "Node list \<Rightarrow> string \<Rightarrow> error option" where
  "checkNoSystemTablesReferencing None pre = None"
| "checkNoSystemTablesReferencing (Some (N_RangeVar rangeVar)) pre =
     (if HasPrefix (Relname rangeVar) pre then Some ErrSystemTableReferencing else None)"
| "checkNoSystemTablesReferencing (Some (N_InsertStmt rel sel ret)) pre =
     (if HasPrefix (Relname rel) pre then Some ErrSystemTableReferencing
      else checkNoSystemTablesReferencing sel pre)"
| "checkNoSystemTablesReferencing (Some (N_SelectStmt tgt fr wh vl lock)) pre =
     wrap_w ''from clause'' (checkNoSystemTablesReferencing_each fr pre)"
| "checkNoSystemTablesReferencing (Some (N_UpdateStmt rel tgt wh fr ret)) pre =
     (if HasPrefix (Relname rel) pre then Some ErrSystemTableReferencing
      else wrap_w ''from clause'' (checkNoSystemTablesReferencing_each fr pre))"
| "checkNoSystemTablesReferencing (Some (N_DeleteStmt rel wh ret)) pre =
     (if HasPrefix (Relname rel) pre then Some ErrSystemTableReferencing
      else wrap_w ''where clause'' (checkNoSystemTablesReferencing wh pre))"
| "checkNoSystemTablesReferencing (Some (N_RangeSubselect subquery)) pre =
     wrap_w ''subquery'' (checkNoSystemTablesReferencing subquery pre)"
| "checkNoSystemTablesReferencing (Some (N_JoinExpr larg rarg)) pre =
     (case wrap_w ''join left arg'' (checkNoSystemTablesReferencing larg pre) of
        Some e \<Rightarrow> Some e
      | None \<Rightarrow> wrap_w ''join right arg'' (checkNoSystemTablesReferencing rarg pre))"
| "checkNoSystemTablesReferencing (Some n) pre = None"
| "checkNoSystemTablesReferencing_each [] pre = None"
| "checkNoSystemTablesReferencing_each (fcn # rest) pre =
     (case checkNoSystemTablesReferencing (Some fcn) pre of
        Some e \<Rightarrow> Some e
      | None \<Rightarrow> checkNoSystemTablesReferencing_each rest pre)"

fun getReferencedTable :: "Node \<Rightarrow> error + string" where
  "getReferencedTable (N_InsertStmt rel sel ret) = Inr (Relname rel)"
| "getReferencedTable (N_UpdateStmt rel tgt wh fr ret) = Inr (Relname rel)"
| "getReferencedTable (N_DeleteStmt rel wh ret) = Inr (Relname rel)"
| "getReferencedTable n = Inl (ErrorNew ''the statement isn't an insert/update/delete'')"

text \<open>
  \<open>checkNonDeterministicFunctions\<close> has two \<open>if\<close> chains: the first looks for an
  \<open>SQLValueFunction\<close> node or a \<open>List\<close>, the second descends into the statement and
  expression kinds it names. A node is of one kind, so at most one branch of both runs.
\<close>

fun checkNonDeterministicFunctions :: "Node option \<Rightarrow> error option"
  and checkNonDeterministicFunctions_each :: "Node list \<Rightarrow> error option" where
  "checkNonDeterministicFunctions None = None"
| "checkNonDeterministicFunctions (Some N_SqlvalueFunction) = Some ErrNonDeterministicFunction"
| "checkNonDeterministicFunctions (Some (N_List items)) =
     wrap_w ''list item'' (checkNonDeterministicFunctions_each items)"
| "checkNonDeterministicFunctions (Some (N_InsertStmt rel sel ret)) =
     checkNonDeterministicFunctions sel"
| "checkNonDeterministicFunctions (Some (N_SelectStmt tgt fr wh vl lock)) =
     (case wrap_w ''value list'' (checkNonDeterministicFunctions_each vl) of
        Some e \<Rightarrow> Some e
      | None \<Rightarrow> wrap_w ''from'' (checkNonDeterministicFunctions_each fr))"
| "checkNonDeterministicFunctions (Some (N_UpdateStmt rel tgt wh fr ret)) =
     (case wrap_w ''target'' (checkNonDeterministicFunctions_each tgt) of
        Some e \<Rightarrow> Some e
      | None \<Rightarrow>
         (case wrap_w ''from clause'' (checkNonDeterministicFunctions_each fr) of
            Some e \<Rightarrow> Some e
          | None \<Rightarrow> wrap_w ''where clause'' (checkNonDeterministicFunctions wh)))"
| "checkNonDeterministicFunctions (Some (N_DeleteStmt rel wh ret)) =
     wrap_w ''where clause'' (checkNonDeterministicFunctions wh)"
| "checkNonDeterministicFunctions (Some (N_RangeSubselect subquery)) =
     wrap_w ''subquery'' (checkNonDeterministicFunctions subquery)"
| "checkNonDeterministicFunctions (Some (N_JoinExpr larg rarg)) =
     (case wrap_w ''join left tree'' (checkNonDeterministicFunctions larg) of
        Some e \<Rightarrow> Some e
      | None \<Rightarrow> wrap_w ''join right tree'' (checkNonDeterministicFunctions rarg))"
| "checkNonDeterministicFunctions (Some (N_A_Expr lexpr rexpr)) =
     (case wrap_w ''aexpr left'' (checkNonDeterministicFunctions lexpr) of
        Some e \<Rightarrow> Some e
      | None \<Rightarrow> wrap_w ''aexpr right'' (checkNonDeterministicFunctions rexpr))"
| "checkNonDeterministicFunctions (Some (N_ResTarget val)) =
     wrap_w ''target'' (checkNonDeterministicFunctions val)"
| "checkNonDeterministicFunctions (Some n) = None"
| "checkNonDeterministicFunctions_each [] = None"
| "checkNonDeterministicFunctions_each (item # rest) =
     (case checkNonDeterministicFunctions (Some item) of
        Some e \<Rightarrow> Some e
      | None \<Rightarrow> checkNonDeterministicFunctions_each rest)"

fun checkNoJoinOrSubquery :: "Node option \<Rightarrow> error option"
  and checkNoJoinOrSubquery_each :: "Node list \<Rightarrow> error option" where
  "checkNoJoinOrSubquery None = None"
| "checkNoJoinOrSubquery (Some (N_ResTarget val)) =
     wrap_w ''column sub-query'' (checkNoJoinOrSubquery val)"
| "checkNoJoinOrSubquery (Some (N_SelectStmt tgt fr wh vl lock)) =
     (if length vl = 0 then Some ErrJoinOrSubquery else None)"
| "checkNoJoinOrSubquery (Some (N_RangeSubselect subquery)) = Some ErrJoinOrSubquery"
| "checkNoJoinOrSubquery (Some (N_JoinExpr larg rarg)) = Some ErrJoinOrSubquery"
| "checkNoJoinOrSubquery (Some (N_InsertStmt rel sel ret)) =
     wrap_w ''insert select expr'' (checkNoJoinOrSubquery sel)"
| "checkNoJoinOrSubquery (Some (N_UpdateStmt rel tgt wh fr ret)) =
     (if length fr \<noteq> 0 then Some ErrJoinOrSubquery
      else wrap_w ''where clause'' (checkNoJoinOrSubquery wh))"
| "checkNoJoinOrSubquery (Some (N_DeleteStmt rel wh ret)) =
     wrap_w ''where clause'' (checkNoJoinOrSubquery wh)"
| "checkNoJoinOrSubquery (Some (N_A_Expr lexpr rexpr)) =
     (case wrap_w ''aexpr left'' (checkNoJoinOrSubquery lexpr) of
        Some e \<Rightarrow> Some e
      | None \<Rightarrow> wrap_w ''aexpr right'' (checkNoJoinOrSubquery rexpr))"
| "checkNoJoinOrSubquery (Some (N_SubLink subselect)) = Some ErrJoinOrSubquery"
| "checkNoJoinOrSubquery (Some (N_BoolExpr args)) =
     wrap_w ''bool expr'' (checkNoJoinOrSubquery_each args)"
| "checkNoJoinOrSubquery (Some n) = None"
| "checkNoJoinOrSubquery_each [] = None"
| "checkNoJoinOrSubquery_each (arg # rest) =
     (case checkNoJoinOrSubquery (Some arg) of
        Some e \<Rightarrow> Some e
      | None \<Rightarrow> checkNoJoinOrSubquery_each rest)"

text \<open>\<open>validateWriteQuery\<close>: the per-statement checks of the write path, in the source's order.\<close>

definition validateWriteQuery :: "QueryValidator \<Rightarrow> Node \<Rightarrow> error + string" where
  "validateWriteQuery pp stmt =
     (case checkTopLevelUpdateInsertDelete stmt of
        Some e \<Rightarrow> Inl (Errorf_w ''allowed top level stmt'' e)
      | None \<Rightarrow>
     (case checkNoJoinOrSubquery (Some stmt) of
        Some e \<Rightarrow> Inl (Errorf_w ''join or subquery check'' e)
      | None \<Rightarrow>
     (case checkNoReturningClause (Some stmt) of
        Some e \<Rightarrow> Inl (Errorf_w ''no returning clause check'' e)
      | None \<Rightarrow>
     (case checkNoSystemTablesReferencing (Some stmt) (systemTablePrefix pp) of
        Some e \<Rightarrow> Inl (Errorf_w ''no system-table reference'' e)
      | None \<Rightarrow>
     (case checkNonDeterministicFunctions (Some stmt) of
        Some e \<Rightarrow> Inl (Errorf_w ''no non-deterministic func check'' e)
      | None \<Rightarrow>
     (case getReferencedTable stmt of
        Inl e \<Rightarrow> Inl (Errorf_w ''get referenced table'' e)
      | Inr referencedTable \<Rightarrow> Inr referencedTable))))))"

text \<open>
  \<open>validateReadQuery\<close> is called on a node whose \<open>GetSelectStmt()\<close> is not nil; on
  another node the field access on the nil \<open>*SelectStmt\<close> panics.
\<close>

fun validateReadQuery :: "Node \<Rightarrow> error option" where
  "validateReadQuery (N_SelectStmt tgt fr wh vl lock) =
     (case wrap_w ''join or subquery in where'' (checkNoJoinOrSubquery wh) of
        Some e \<Rightarrow> Some e
      | None \<Rightarrow>
     (case wrap_w ''join or subquery in cols'' (checkNoJoinOrSubquery_each tgt) of
        Some e \<Rightarrow> Some e
      | None \<Rightarrow>
     (case wrap_w ''join or subquery in from'' (checkNoJoinOrSubquery_each fr) of
        Some e \<Rightarrow> Some e
      | None \<Rightarrow>
         wrap_w ''no for check'' (checkNoForUpdateOrShare (N_SelectStmt tgt fr wh vl lock)))))"
| "validateReadQuery n = Some (Panic ''nil pointer dereference'')"

datatype QueryType = UndefinedQuery | ReadQuery | WriteQuery

record writeStmt =
  rawQuery :: string
  tableName :: string

fun GetSelectStmt :: "Node \<Rightarrow> bool" where
  "GetSelectStmt (N_SelectStmt tgt fr wh vl lock) = True"
| "GetSelectStmt n = False"

text \<open>
  The loop of the write path over \<open>parsed.Stmts\<close>, with its two variables: \<open>targetTable\<close>
  (empty until a statement has set it) and the statements written so far. \<open>Deparse\<close> is the
  parser library's deparser applied to the one-statement tree; it gives the SQL text or
  fails (\<open>Inl\<close>). \<open>parsed\<close> below is the outcome of the library's parser: the text of a
  syntax error, or the statements.
\<close>

fun validateWriteStmts ::
  "(Node \<Rightarrow> error + string) \<Rightarrow> QueryValidator \<Rightarrow> string \<Rightarrow> writeStmt list \<Rightarrow> Node list
     \<Rightarrow> error + writeStmt list" where
  "validateWriteStmts Deparse pp targetTable writeStmts [] = Inr writeStmts"
| "validateWriteStmts Deparse pp targetTable writeStmts (stmt # rest) =
     (case validateWriteQuery pp stmt of
        Inl e \<Rightarrow> Inl (Errorf_w ''validating write-query'' e)
      | Inr refTable \<Rightarrow>
         (case (if targetTable = [] then Inr refTable
                else if targetTable \<noteq> refTable
                then Inl (ErrMultiTableReference targetTable refTable)
                else Inr targetTable) of
            Inl e \<Rightarrow> Inl e
          | Inr targetTable' \<Rightarrow>
             (case Deparse stmt of
                Inl e \<Rightarrow> Inl (Errorf_s ''deparsing statement'' e)
              | Inr wq \<Rightarrow>
                  validateWriteStmts Deparse pp targetTable'
                    (writeStmts @ [\<lparr>rawQuery = wq, tableName = targetTable'\<rparr>]) rest)))"

text \<open>
  \<open>ValidateRunSQL\<close> on the outcome of \<open>pg_query.Parse(query)\<close>: a syntax error (\<open>Inl\<close>) or
  the statements of \<open>parsed.Stmts\<close>. It returns the query type and the write statements.
\<close>

definition ValidateRunSQL ::
  "(Node \<Rightarrow> error + string) \<Rightarrow> QueryValidator \<Rightarrow> string + Node list
     \<Rightarrow> error + QueryType \<times> writeStmt list" where
  "ValidateRunSQL Deparse pp parsed =
     (case parsed of
        Inl internalError \<Rightarrow> Inl (ErrInvalidSyntax internalError)
      | Inr stmts \<Rightarrow>
     (case checkNonEmptyStatement stmts of
        Some e \<Rightarrow> Inl (Errorf_w ''empty-statement check'' e)
      | None \<Rightarrow>
     (case stmts of
        [] \<Rightarrow> Inl (Panic ''index out of range'')
      | stmt # others \<Rightarrow>
         if GetSelectStmt stmt then
           (case checkSingleStatement stmts of
              Some e \<Rightarrow> Inl (Errorf_w ''single-statement check'' e)
            | None \<Rightarrow>
           (case validateReadQuery stmt of
              Some e \<Rightarrow> Inl (Errorf_w ''validating read-query'' e)
            | None \<Rightarrow> Inr (ReadQuery, [])))
         else
           (case validateWriteStmts Deparse pp [] [] stmts of
              Inl e \<Rightarrow> Inl e
            | Inr writeStmts \<Rightarrow> Inr (WriteQuery, writeStmts)))))"

section \<open>SHA-256 and hex encoding\<close>

text \<open>
  \<open>crypto/sha256\<close> (FIPS 180-4) on a list of bytes, and \<open>encoding/hex\<close>. Bytes are
  numbers below 256. \<open>K256\<close> holds the 64 round constants, written in decimal.
\<close>

definition K256 :: "32 word list" where
  "K256 = [
    1116352408, 1899447441, 3049323471, 3921009573, 961987163, 1508970993, 2453635748, 2870763221,
    3624381080, 310598401, 607225278, 1426881987, 1925078388, 2162078206, 2614888103, 3248222580,
    3835390401, 4022224774, 264347078, 604807628, 770255983, 1249150122, 1555081692, 1996064986,
    2554220882, 2821834349, 2952996808, 3210313671, 3336571891, 3584528711, 113926993, 338241895,
    666307205, 773529912, 1294757372, 1396182291, 1695183700, 1986661051, 2177026350, 2456956037,
    2730485921, 2820302411, 3259730800, 3345764771, 3516065817, 3600352804, 4094571909, 275423344,
    430227734, 506948616, 659060556, 883997877, 958139571, 1322822218, 1537002063, 1747873779,
    1955562222, 2024104815, 2227730452, 2361852424, 2428436474, 2756734187, 3204031479, 3329325298]"

definition rotr :: "nat \<Rightarrow> 32 word \<Rightarrow> 32 word" where
  "rotr n x = drop_bit n x OR push_bit (32 - n) x"

definition Ch :: "32 word \<Rightarrow> 32 word \<Rightarrow> 32 word \<Rightarrow> 32 word" where
  "Ch x y z = (x AND y) XOR (NOT x AND z)"

definition Maj :: "32 word \<Rightarrow> 32 word \<Rightarrow> 32 word \<Rightarrow> 32 word" where
  "Maj x y z = (x AND y) XOR (x AND z) XOR (y AND z)"

definition bsig0 :: "32 word \<Rightarrow> 32 word" where
  "bsig0 x = rotr 2 x XOR rotr 13 x XOR rotr 22 x"

definition bsig1 :: "32 word \<Rightarrow> 32 word" where
  "bsig1 x = rotr 6 x XOR rotr 11 x XOR rotr 25 x"

definition ssig0 :: "32 word \<Rightarrow> 32 word" where
  "ssig0 x = rotr 7 x XOR rotr 18 x XOR drop_bit 3 x"

definition ssig1 :: "32 word \<Rightarrow> 32 word" where
  "ssig1 x = rotr 17 x XOR rotr 19 x XOR drop_bit 10 x"

text \<open>The \<open>k\<close> big-endian bytes of a number.\<close>

definition be_bytes :: "nat \<Rightarrow> nat \<Rightarrow> nat list" where
  "be_bytes k n = map (\<lambda>i. (n div 256 ^ i) mod 256) (rev [0..<k])"

text \<open>The message with its padding: 0x80, zeros, and the bit length as 8 big-endian bytes.\<close>

definition sha_pad :: "nat list \<Rightarrow> nat list" where
  "sha_pad bs = bs @ [128] @ replicate ((119 - length bs mod 64) mod 64) 0
                   @ be_bytes 8 (8 * length bs)"

fun be_words :: "nat list \<Rightarrow> 32 word list" where
  "be_words (a # b # c # d # rest) =
     of_nat (((a * 256 + b) * 256 + c) * 256 + d) # be_words rest"
| "be_words rest = []"

text \<open>The message schedule: 16 words of the block extended by \<open>n\<close> more.\<close>

fun schedule :: "nat \<Rightarrow> 32 word list \<Rightarrow> 32 word list" where
  "schedule 0 w = w"
| "schedule (Suc n) w =
     (let t = length w in
      schedule n (w @ [ssig1 (w ! (t - 2)) + w ! (t - 7) + ssig0 (w ! (t - 15)) + w ! (t - 16)]))"

type_synonym sha_state =
  "32 word \<times> 32 word \<times> 32 word \<times> 32 word \<times> 32 word \<times> 32 word \<times> 32 word \<times> 32 word"

fun round256 :: "sha_state \<Rightarrow> 32 word \<times> 32 word \<Rightarrow> sha_state" where
  "round256 (a, b, c, d, e, f, g, h) (k, w) =
     (let T1 = h + bsig1 e + Ch e f g + k + w;
          T2 = bsig0 a + Maj a b c
      in (T1 + T2, a, b, c, d + T1, e, f, g))"

fun add_state :: "sha_state \<Rightarrow> sha_state \<Rightarrow> sha_state" where
  "add_state (a, b, c, d, e, f, g, h) (a', b', c', d', e', f', g', h') =
     (a + a', b + b', c + c', d + d', e + e', f + f', g + g', h + h')"

definition block256 :: "sha_state \<Rightarrow> 32 word list \<Rightarrow> sha_state" where
  "block256 st ws = add_state st (foldl round256 st (zip K256 (schedule 48 ws)))"

function blocks256 :: "sha_state \<Rightarrow> 32 word list \<Rightarrow> sha_state" where
  "blocks256 st ws = (if length ws < 16 then st
                      else blocks256 (block256 st (take 16 ws)) (drop 16 ws))"
  by pat_completeness auto
termination
  by (relation "measure (\<lambda>(st, ws). length ws)") auto

declare blocks256.simps [simp del]

definition word_bytes :: "32 word \<Rightarrow> nat list" where
  "word_bytes w = be_bytes 4 (unat w)"

fun state_bytes :: "sha_state \<Rightarrow> nat list" where
  "state_bytes (a, b, c, d, e, f, g, h) = concat (map word_bytes [a, b, c, d, e, f, g, h])"

definition sha256_Sum :: "nat list \<Rightarrow> nat list" where
  "sha256_Sum bs =
     state_bytes (blocks256
       (0x6a09e667, 0xbb67ae85, 0x3c6ef372, 0xa54ff53a,
        0x510e527f, 0x9b05688c, 0x1f83d9ab, 0x5be0cd19)
       (be_words (sha_pad bs)))"

definition hexdigit :: "nat \<Rightarrow> char" where
  "hexdigit d = ''0123456789abcdef'' ! d"

definition hex_byte :: "nat \<Rightarrow> string" where
  "hex_byte b = [hexdigit (b div 16), hexdigit (b mod 16)]"

definition hex_EncodeToString :: "nat list \<Rightarrow> string" where
  "hex_EncodeToString bs = concat (map hex_byte bs)"

text \<open>\<open>[]byte(s)\<close>\<close>

definition str_bytes :: "string \<Rightarrow> nat list" where
  "str_bytes s = map of_char s"

section \<open>CREATE TABLE statements\<close>

record colNameType =
  colName :: string
  typeName :: string

record createStmt =
  cNode :: Node
  structureHash :: string
  namePrefix :: string

text \<open>\<open>GetString_()\<close>: the string node behind a node, or nil.\<close>

fun GetString :: "Node \<Rightarrow> string option" where
  "GetString (N_String str) = Some str"
| "GetString n = None"

text \<open>The check of \<open>createStmt.OfTypename.Names\<close>: every name is a string node.\<close>

fun checkOfTypename :: "Node list \<Rightarrow> error option" where
  "checkOfTypename [] = None"
| "checkOfTypename (nameNode # rest) =
     (case GetString nameNode of
        None \<Rightarrow> Some (ErrorNew ''unexpected type name node: <nil>'')
      | Some name \<Rightarrow> checkOfTypename rest)"

text \<open>
  The loop labelled \<open>AcceptedTypesFor\<close> over the names of a column's type: \<open>pg_catalog\<close>
  is skipped; the first other name either is an accepted type name, which ends the loop
  with \<open>typeName\<close> set, or fails. The names run out with \<open>typeName\<close> still empty.
\<close>

fun AcceptedTypesFor :: "string list \<Rightarrow> Node list \<Rightarrow> error + string" where
  "AcceptedTypesFor accepted [] = Inr []"
| "AcceptedTypesFor accepted (nameNode # rest) =
     (case GetString nameNode of
        None \<Rightarrow> Inl (ErrorNew ''unexpected type name node: <nil>'')
      | Some name \<Rightarrow>
          if name = ''pg_catalog'' then AcceptedTypesFor accepted rest
          else if List.member accepted name then Inr name
          else Inl (ErrInvalidColumnType name))"

text \<open>The loop over \<open>createStmt.TableElts\<close>, with \<open>colNameTypes\<close> so far.\<close>

fun checkTableElts ::
  "string list \<Rightarrow> colNameType list \<Rightarrow> Node list \<Rightarrow> error + colNameType list" where
  "checkTableElts accepted colNameTypes [] = Inr colNameTypes"
| "checkTableElts accepted colNameTypes (N_Constraint kind args # rest) =
     checkTableElts accepted colNameTypes rest"
| "checkTableElts accepted colNameTypes (N_ColumnDef colname None constraints # rest) =
     Inl (Panic ''nil pointer dereference'')"
| "checkTableElts accepted colNameTypes (N_ColumnDef colname (Some names) constraints # rest) =
     (case AcceptedTypesFor accepted names of
        Inl e \<Rightarrow> Inl e
      | Inr tn \<Rightarrow>
          checkTableElts accepted
            (colNameTypes @ [\<lparr>colName = colname, typeName = tn\<rparr>]) rest)"
| "checkTableElts accepted colNameTypes (col # rest) =
     Inl (ErrorNew ''unexpected node type in column definition'')"

fun checkCreateColTypes :: "Node \<Rightarrow> string list \<Rightarrow> error + colNameType list" where
  "checkCreateColTypes (N_CreateStmt rel elts ofTypename) accepted =
     (case (case ofTypename of None \<Rightarrow> None | Some names \<Rightarrow> checkOfTypename names) of
        Some e \<Rightarrow> Inl e
      | None \<Rightarrow> checkTableElts accepted [] elts)"
| "checkCreateColTypes n accepted = Inl errEmptyNode"

text \<open>\<open>strings.Join(elems, sep)\<close>\<close>

fun Join :: "string list \<Rightarrow> string \<Rightarrow> string" where
  "Join [] sep = []"
| "Join [x] sep = x"
| "Join (x # y # rest) sep = x @ sep @ Join (y # rest) sep"

definition stringifiedColDef :: "colNameType list \<Rightarrow> string" where
  "stringifiedColDef cols = Join (map (\<lambda>c. colName c @ '':'' @ typeName c) cols) '',''"

fun genCreateStmt :: "Node \<Rightarrow> colNameType list \<Rightarrow> error + createStmt" where
  "genCreateStmt (N_CreateStmt rel elts ofTypename) cols =
     Inr \<lparr>cNode = N_CreateStmt rel elts ofTypename,
          structureHash = hex_EncodeToString (sha256_Sum (str_bytes (stringifiedColDef cols))),
          namePrefix = Relname rel\<rparr>"
| "genCreateStmt n cols = Inl (Panic ''nil pointer dereference'')"

definition ValidateCreateTable :: "QueryValidator \<Rightarrow> string + Node list \<Rightarrow> error + createStmt" where
  "ValidateCreateTable pp parsed =
     (case parsed of
        Inl internalError \<Rightarrow> Inl (ErrInvalidSyntax internalError)
      | Inr stmts \<Rightarrow>
     (case checkNonEmptyStatement stmts of
        Some e \<Rightarrow> Inl (Errorf_w ''empty-statement check'' e)
      | None \<Rightarrow>
     (case checkSingleStatement stmts of
        Some e \<Rightarrow> Inl (Errorf_w ''single-statement check'' e)
      | None \<Rightarrow>
     (case stmts of
        [] \<Rightarrow> Inl (Panic ''index out of range'')
      | stmt # others \<Rightarrow>
     (case checkTopLevelCreate stmt of
        Some e \<Rightarrow> Inl (Errorf_w ''allowed top level stmt'' e)
      | None \<Rightarrow>
     (case checkCreateColTypes stmt (acceptedTypesNames pp) of
        Inl e \<Rightarrow> Inl (Errorf_w ''disallowed column types'' e)
      | Inr colNameTypes \<Rightarrow>
     (case genCreateStmt stmt colNameTypes of
        Inl e \<Rightarrow> Inl (Errorf_s ''generating structured create statement'' e)
      | Inr cs \<Rightarrow> Inr cs)))))))"

text \<open>
  Modelled from the spec: the declaration of \<open>TableID\<close> is not among the sources; by the
  spec a table id is an unbounded non-negative integer, here a \<open>nat\<close>. \<open>to_hex\<close> is its
  lowercase hexadecimal text, and \<open>Sprintf_0x016x\<close> is \<open>fmt.Sprintf("0x%016x", id)\<close>, where
  \<open>%016x\<close> pads with zeros to a width of at least 16.
\<close>

function to_hex :: "nat \<Rightarrow> string" where
  "to_hex n = (if n < 16 then [hexdigit n] else to_hex (n div 16) @ [hexdigit (n mod 16)])"
  by pat_completeness auto
termination
  by (relation "measure id") auto

declare to_hex.simps [simp del]

definition Sprintf_0x016x :: "nat \<Rightarrow> string" where
  "Sprintf_0x016x tid = ''0x'' @ replicate (16 - length (to_hex tid)) (CHR ''0'') @ to_hex tid"

text \<open>
  \<open>GetRawQueryForTableID\<close> writes the relation name into the stored tree and deparses it:
  the result and the statement as it is afterwards.
\<close>

fun GetRawQueryForTableID ::
  "(Node \<Rightarrow> error + string) \<Rightarrow> createStmt \<Rightarrow> nat \<Rightarrow> (error + string) \<times> createStmt" where
  "GetRawQueryForTableID Deparse cs tid =
     (case cNode cs of
        N_CreateStmt rel elts ofTypename \<Rightarrow>
          (let cs' = cs\<lparr>cNode := N_CreateStmt (RangeVar (''t'' @ Sprintf_0x016x tid)) elts ofTypename\<rparr>
           in case Deparse (cNode cs') of
                Inl e \<Rightarrow> (Inl (Errorf_s ''deparsing statement'' e), cs')
              | Inr wq \<Rightarrow> (Inr wq, cs'))
      | _ \<Rightarrow> (Inl (Panic ''nil pointer dereference''), cs))"

definition GetStructureHash :: "createStmt \<Rightarrow> string" where
  "GetStructureHash cs = structureHash cs"

definition GetNamePrefix :: "createStmt \<Rightarrow> string" where
  "GetNamePrefix cs = namePrefix cs"

section \<open>The transaction processor\<close>

datatype Operation = OpSelect | OpInsert | OpUpdate | OpDelete | OpGrant | OpRevoke | OpCreate

fun Operation_String :: "Operation \<Rightarrow> string" where
  "Operation_String OpSelect = ''OpSelect''"
| "Operation_String OpInsert = ''OpInsert''"
| "Operation_String OpUpdate = ''OpUpdate''"
| "Operation_String OpDelete = ''OpDelete''"
| "Operation_String OpGrant = ''OpGrant''"
| "Operation_String OpRevoke = ''OpRevoke''"
| "Operation_String OpCreate = ''OpCreate''"

text \<open>
  The channel \<open>chBatch\<close> is \<open>make(chan struct{}, 1)\<close>: its state is the number of tokens it
  holds. A receive from the empty channel and a send to the full one block: \<open>None\<close>.
\<close>

definition chan_recv :: "nat \<Rightarrow> nat option" where
  "chan_recv n = (if n = 0 then None else Some (n - 1))"

definition chan_send :: "nat \<Rightarrow> nat option" where
  "chan_send n = (if 1 \<le> n then None else Some (n + 1))"

text \<open>A call either returns, with its result and the processor afterwards, or blocks.\<close>

datatype 'a blocking = Blocks | Returns 'a

record 'p TblTxnProcessor =
  pool :: 'p
  chBatch :: nat
  maxTableRowCount :: "64 word"

text \<open>
  \<open>NewTxnProcessor\<close> on the outcome of \<open>pgxpool.Connect\<close>. Go's \<open>int\<close> is the 64-bit
  two's complement integer of the platforms the validator runs on; comparisons are signed.
\<close>

definition NewTxnProcessor :: "error + 'p \<Rightarrow> 64 word \<Rightarrow> error + 'p TblTxnProcessor" where
  "NewTxnProcessor connect maxRowCount =
     (case connect of
        Inl err \<Rightarrow> Inl (Errorf_s ''connecting to postgres'' err)
      | Inr p \<Rightarrow>
          if maxRowCount <s 0 then Inl (ErrorNew ''maximum table row count is negative'')
          else Inr \<lparr>pool = p, chBatch = 1, maxTableRowCount = maxRowCount\<rparr>)"

record 's batch =
  txn :: 's

text \<open>
  \<open>OpenBatch\<close> on the outcome of \<open>tp.pool.BeginTx\<close>: an error, or the state the new
  transaction starts from.
\<close>

definition OpenBatch ::
  "'p TblTxnProcessor \<Rightarrow> error + 's \<Rightarrow> ((error + 's batch) \<times> 'p TblTxnProcessor) blocking" where
  "OpenBatch tp beginTx =
     (case chan_recv (chBatch tp) of
        None \<Rightarrow> Blocks
      | Some c \<Rightarrow>
         (case beginTx of
            Inl err \<Rightarrow>
              (case chan_send c of
                 None \<Rightarrow> Blocks
               | Some c' \<Rightarrow>
                   Returns (Inl (Errorf_s ''opening postgres transaction'' err), tp\<lparr>chBatch := c'\<rparr>))
          | Inr t \<Rightarrow> Returns (Inr \<lparr>txn = t\<rparr>, tp\<lparr>chBatch := c\<rparr>)))"

text \<open>
  \<open>Close\<close> of the processor: a \<open>select\<close> between \<open>ctx.Done()\<close> and a receive from
  \<open>chBatch\<close>. \<open>ctxDone\<close> says whether the context is cancelled; when both cases are
  ready Go picks one of them, here by \<open>pickCtx\<close>; when none is, the call blocks.
\<close>

definition Close ::
  "'p TblTxnProcessor \<Rightarrow> bool \<Rightarrow> bool \<Rightarrow> (error option \<times> 'p TblTxnProcessor) blocking" where
  "Close tp ctxDone pickCtx =
     (case chan_recv (chBatch tp) of
        None \<Rightarrow> if ctxDone then Returns (Some (ErrorNew ''closing ctx done''), tp) else Blocks
      | Some c \<Rightarrow>
          if ctxDone \<and> pickCtx then Returns (Some (ErrorNew ''closing ctx done''), tp)
          else Returns (None, tp\<lparr>chBatch := c\<rparr>))"

subsection \<open>The store\<close>

text \<open>
  The statements the processor sends to the store with their arguments, in place of the
  SQL text with \<open>$1, $2, ...\<close>: the insert into \<open>registry\<close> (id, controller, name,
  structure, description), the insert into \<open>system_acl\<close> (table id, controller,
  privileges), the upsert of a grant, the \<open>array_remove\<close> of a revoke, and a statement
  without arguments.
\<close>

datatype db_cmd =
    InsertRegistry string string string string string
  | InsertSystemACL string string "string list"
  | UpsertSystemACL string string "string list"
  | RemoveSystemACL string string string
  | Query string

record CommandTag =
  Insert :: bool
  RowsAffected :: "64 word"

datatype scan = ErrNoRows | ScanError error | Scanned string "64 word"

text \<open>
  What the processor calls and does not define, taken as parameters:
  \<open>pgtype.Numeric.Set\<close> on the decimal text of a table id, \<open>tx.Exec\<close> (an error, or the
  transaction's state afterwards and the command tag), the \<open>QueryRow(...).Scan\<close> of the
  name and row count of a table, and the ACL's \<open>CheckPrivileges\<close> and \<open>IsOwner\<close>, with
  the results \<open>processor.go\<close> reads from them (an error or nil; a boolean and an error).
\<close>

record 's deps =
  NumericSet :: "nat \<Rightarrow> error + string"
  Exec :: "'s \<Rightarrow> db_cmd \<Rightarrow> error + 's \<times> CommandTag"
  QueryRowScan :: "'s \<Rightarrow> string \<Rightarrow> nat \<Rightarrow> scan"
  CheckPrivileges :: "'s \<Rightarrow> string \<Rightarrow> nat \<Rightarrow> Operation \<Rightarrow> error option"
  IsOwner :: "string \<Rightarrow> nat \<Rightarrow> error + bool"

text \<open>
  \<open>tx.BeginFunc(ctx, f)\<close> runs \<open>f\<close> under a savepoint: released when \<open>f\<close> returns nil,
  rolled back, with \<open>f\<close>'s error returned, otherwise. \<open>f\<close> may also change a value \<open>h\<close>
  outside the store, which no rollback restores.
\<close>

definition BeginFunc ::
  "('s \<Rightarrow> 'h \<Rightarrow> (error + 's) \<times> 'h) \<Rightarrow> 's \<Rightarrow> 'h \<Rightarrow> error option \<times> 's \<times> 'h" where
  "BeginFunc f s h =
     (case f s h of
        (Inl e, h') \<Rightarrow> (Some e, s, h')
      | (Inr s', h') \<Rightarrow> (None, s', h'))"

subsection \<open>InsertTable\<close>

definition InsertTable_f ::
  "'s deps \<Rightarrow> (Node \<Rightarrow> error + string) \<Rightarrow> nat \<Rightarrow> string \<Rightarrow> string
     \<Rightarrow> 's \<Rightarrow> createStmt \<Rightarrow> (error + 's) \<times> createStmt" where
  "InsertTable_f d Deparse tid controller description tx cs =
     (case NumericSet d tid of
        Inl err \<Rightarrow> (Inl (Errorf_s ''parsing table id to numeric'' err), cs)
      | Inr dbID \<Rightarrow>
     (case Exec d tx (InsertRegistry dbID controller (GetNamePrefix cs) (GetStructureHash cs)
                        description) of
        Inl err \<Rightarrow> (Inl (Errorf_s ''inserting new table in system-wide registry'' err), cs)
      | Inr (tx1, tag1) \<Rightarrow>
     (case Exec d tx1 (InsertSystemACL dbID controller [''a'', ''w'', ''d'']) of
        Inl err \<Rightarrow> (Inl (Errorf_s ''inserting new entry into system acl'' err), cs)
      | Inr (tx2, tag2) \<Rightarrow>
     (case GetRawQueryForTableID Deparse cs tid of
        (Inl err, cs') \<Rightarrow> (Inl (Errorf_s ''get query for table id'' err), cs')
      | (Inr query, cs') \<Rightarrow>
     (case Exec d tx2 (Query query) of
        Inl err \<Rightarrow> (Inl (Errorf_s ''exec CREATE statement'' err), cs')
      | Inr (tx3, tag3) \<Rightarrow> (Inr tx3, cs'))))))"

definition InsertTable ::
  "'s deps \<Rightarrow> (Node \<Rightarrow> error + string) \<Rightarrow> 's batch \<Rightarrow> nat \<Rightarrow> string \<Rightarrow> string \<Rightarrow> createStmt
     \<Rightarrow> error option \<times> 's batch \<times> createStmt" where
  "InsertTable d Deparse b tid controller description cs =
     (case BeginFunc (InsertTable_f d Deparse tid controller description) (txn b) cs of
        (Some err, tx', cs') \<Rightarrow>
          (Some (Errorf_s ''processing register table'' err), b\<lparr>txn := tx'\<rparr>, cs')
      | (None, tx', cs') \<Rightarrow> (None, b\<lparr>txn := tx'\<rparr>, cs'))"

subsection \<open>ExecWriteQueries\<close>

text \<open>
  Modelled from the spec: the statement types of package \<open>parsing\<close> that the processor
  receives (\<open>SugaredMutatingStmt\<close>, \<open>SugaredWriteStmt\<close>, \<open>SugaredGrantStmt\<close>) are not
  among the sources. A statement is what the methods called in \<open>processor.go\<close> return:
  the name prefix, the table id, the operation, the desugared query or its error; for a
  grant the roles (as \<open>role.Hex()\<close>) and the privileges. \<open>OtherStmt\<close> is a statement of
  neither type, the \<open>default\<close> case of the type switch.
\<close>

record SugaredWriteStmt =
  ws_NamePrefix :: string
  ws_TableID :: nat
  ws_Operation :: Operation
  ws_DesugaredQuery :: "error + string"

record SugaredGrantStmt =
  gs_NamePrefix :: string
  gs_TableID :: nat
  gs_Operation :: Operation
  gs_Roles :: "string list"
  gs_Privileges :: "string list"

datatype SugaredMutatingStmt =
    GrantStmt SugaredGrantStmt
  | WriteStmt SugaredWriteStmt
  | OtherStmt string nat

fun mq_NamePrefix :: "SugaredMutatingStmt \<Rightarrow> string" where
  "mq_NamePrefix (GrantStmt gs) = gs_NamePrefix gs"
| "mq_NamePrefix (WriteStmt ws) = ws_NamePrefix ws"
| "mq_NamePrefix (OtherStmt name tid) = name"

fun mq_TableID :: "SugaredMutatingStmt \<Rightarrow> nat" where
  "mq_TableID (GrantStmt gs) = gs_TableID gs"
| "mq_TableID (WriteStmt ws) = ws_TableID ws"
| "mq_TableID (OtherStmt name tid) = tid"

definition GetTableNameAndRowCountByTableID ::
  "'s deps \<Rightarrow> 's \<Rightarrow> nat \<Rightarrow> error + string \<times> 64 word" where
  "GetTableNameAndRowCountByTableID d tx tid =
     (case NumericSet d tid of
        Inl err \<Rightarrow> Inl (Errorf_s ''parsing table id to numeric'' err)
      | Inr dbID \<Rightarrow>
         (case QueryRowScan d tx dbID tid of
            ErrNoRows \<Rightarrow> Inl (ErrorNew ''the table id doesn't exist'')
          | ScanError err \<Rightarrow> Inl (Errorf_s ''table name lookup'' err)
          | Scanned dbName rowCount \<Rightarrow> Inr (dbName, rowCount)))"

text \<open>The loop of a revoke over the privileges of the statement.\<close>

fun revokePrivileges :: "'s deps \<Rightarrow> 's \<Rightarrow> string \<Rightarrow> string \<Rightarrow> string list \<Rightarrow> error + 's" where
  "revokePrivileges d tx dbID role [] = Inr tx"
| "revokePrivileges d tx dbID role (privAbbr # rest) =
     (case Exec d tx (RemoveSystemACL dbID role privAbbr) of
        Inl err \<Rightarrow> Inl (Errorf_s ''removing acl entry from system acl'' err)
      | Inr (tx', tag) \<Rightarrow> revokePrivileges d tx' dbID role rest)"

text \<open>The loop of \<open>executeGrantStmt\<close> over the roles.\<close>

fun grantRoles ::
  "'s deps \<Rightarrow> 's \<Rightarrow> SugaredGrantStmt \<Rightarrow> string \<Rightarrow> string list \<Rightarrow> error + 's" where
  "grantRoles d tx gs dbID [] = Inr tx"
| "grantRoles d tx gs dbID (role # rest) =
     (case gs_Operation gs of
        OpGrant \<Rightarrow>
          (case Exec d tx (UpsertSystemACL dbID role (gs_Privileges gs)) of
             Inl err \<Rightarrow> Inl (Errorf_s ''creating/updating acl entry on system acl'' err)
           | Inr (tx', tag) \<Rightarrow> grantRoles d tx' gs dbID rest)
      | OpRevoke \<Rightarrow>
          (case revokePrivileges d tx dbID role (gs_Privileges gs) of
             Inl err \<Rightarrow> Inl err
           | Inr tx' \<Rightarrow> grantRoles d tx' gs dbID rest)
      | _ \<Rightarrow> Inl (ErrorNew (''unknown grant stmt operation='' @ Operation_String (gs_Operation gs))))"

definition executeGrantStmt :: "'s deps \<Rightarrow> 's \<Rightarrow> SugaredGrantStmt \<Rightarrow> string \<Rightarrow> error + 's" where
  "executeGrantStmt d tx gs controller =
     (case NumericSet d (gs_TableID gs) of
        Inl err \<Rightarrow> Inl (Errorf_s ''parsing table id to numeric'' err)
      | Inr dbID \<Rightarrow>
         (case IsOwner d controller (gs_TableID gs) of
            Inl err \<Rightarrow> Inl (Errorf_s ''error checking acl'' err)
          | Inr isOwner \<Rightarrow>
              if \<not> isOwner then Inl (ErrorNew ''non owner cannot execute grant stmt'')
              else grantRoles d tx gs dbID (gs_Roles gs)))"

definition executeWriteStmt ::
  "'s deps \<Rightarrow> 64 word \<Rightarrow> 's \<Rightarrow> SugaredWriteStmt \<Rightarrow> string \<Rightarrow> 64 word \<Rightarrow> error + 's" where
  "executeWriteStmt d maxRowCount tx ws controller beforeRowCount =
     (case CheckPrivileges d tx controller (ws_TableID ws) (ws_Operation ws) of
        Some err \<Rightarrow> Inl (Errorf_s ''error checking acl'' err)
      | None \<Rightarrow>
     (case ws_DesugaredQuery ws of
        Inl err \<Rightarrow> Inl (Errorf_s ''get desugared query'' err)
      | Inr desugared \<Rightarrow>
     (case Exec d tx (Query desugared) of
        Inl err \<Rightarrow> Inl (Errorf_s ''exec query'' err)
      | Inr (tx', cmdTag) \<Rightarrow>
          if 0 <s maxRowCount \<and> Insert cmdTag then
            (let afterRowCount = beforeRowCount + RowsAffected cmdTag in
             if maxRowCount <s afterRowCount
             then Inl (ErrRowCountExceeded beforeRowCount afterRowCount)
             else Inr tx')
          else Inr tx')))"

text \<open>\<open>_, ok := err.(*txn.ErrRowCountExceeded)\<close>\<close>

fun is_ErrRowCountExceeded :: "error \<Rightarrow> bool" where
  "is_ErrRowCountExceeded (ErrRowCountExceeded b a) = True"
| "is_ErrRowCountExceeded e = False"

text \<open>The loop of \<open>ExecWriteQueries\<close> over the statements.\<close>

fun execMutatingStmts ::
  "'s deps \<Rightarrow> 64 word \<Rightarrow> string \<Rightarrow> string \<Rightarrow> 64 word \<Rightarrow> 's \<Rightarrow> SugaredMutatingStmt list
     \<Rightarrow> error + 's" where
  "execMutatingStmts d maxRowCount controller dbName beforeRowCount tx [] = Inr tx"
| "execMutatingStmts d maxRowCount controller dbName beforeRowCount tx (mq # rest) =
     (let mqName = mq_NamePrefix mq in
      if mqName \<noteq> [] \<and> dbName \<noteq> mqName
      then Inl (ErrorNew (''table name prefix doesn't match (exp '' @ dbName @ '', got ''
                            @ mqName @ '')''))
      else
        (case mq of
           GrantStmt stmt \<Rightarrow>
             (case executeGrantStmt d tx stmt controller of
                Inl err \<Rightarrow> Inl (Errorf_s ''executing grant stmt'' err)
              | Inr tx' \<Rightarrow>
                  execMutatingStmts d maxRowCount controller dbName beforeRowCount tx' rest)
         | WriteStmt stmt \<Rightarrow>
             (case executeWriteStmt d maxRowCount tx stmt controller beforeRowCount of
                Inl err \<Rightarrow>
                  if is_ErrRowCountExceeded err then Inl err
                  else Inl (Errorf_s ''executing write stmt'' err)
              | Inr tx' \<Rightarrow>
                  execMutatingStmts d maxRowCount controller dbName beforeRowCount tx' rest)
         | OtherStmt name tid \<Rightarrow> Inl (ErrorNew ''unknown stmt type'')))"

definition ExecWriteQueries_f ::
  "'s deps \<Rightarrow> 64 word \<Rightarrow> string \<Rightarrow> SugaredMutatingStmt list \<Rightarrow> 's \<Rightarrow> unit
     \<Rightarrow> (error + 's) \<times> unit" where
  "ExecWriteQueries_f d maxRowCount controller mqueries tx u =
     (case mqueries of
        [] \<Rightarrow> (Inr tx, u)
      | mq0 # others \<Rightarrow>
         (case GetTableNameAndRowCountByTableID d tx (mq_TableID mq0) of
            Inl err \<Rightarrow> (Inl (Errorf_s ''table name lookup for table id'' err), u)
          | Inr (dbName, beforeRowCount) \<Rightarrow>
              (execMutatingStmts d maxRowCount controller dbName beforeRowCount tx mqueries, u)))"

definition ExecWriteQueries ::
  "'s deps \<Rightarrow> 'p TblTxnProcessor \<Rightarrow> 's batch \<Rightarrow> string \<Rightarrow> SugaredMutatingStmt list
     \<Rightarrow> error option \<times> 's batch" where
  "ExecWriteQueries d tp b controller mqueries =
     (case BeginFunc (ExecWriteQueries_f d (maxTableRowCount tp) controller mqueries) (txn b) () of
        (Some err, tx', u) \<Rightarrow> (Some (Errorf_w ''running nested txn'' err), b\<lparr>txn := tx'\<rparr>)
      | (None, tx', u) \<Rightarrow> (None, b\<lparr>txn := tx'\<rparr>))"

text \<open>
  \<open>Commit\<close> of a batch on the outcome of \<open>b.txn.Commit\<close>: the store's committed state
  becomes the transaction's, or stays \<open>db\<close> with the error.
\<close>

definition batch_Commit :: "'s \<Rightarrow> 's batch \<Rightarrow> error option \<Rightarrow> error option \<times> 's" where
  "batch_Commit db b commitErr =
     (case commitErr of
        Some err \<Rightarrow> (Some (Errorf_s ''commit txn'' err), db)
      | None \<Rightarrow> (None, txn b))"

text \<open>
  \<open>Close\<close> of a batch on the outcome of \<open>b.txn.Rollback\<close>: the error it returns is
  computed first (\<open>pgx.ErrTxClosed\<close> is passed over), then the deferred function sends
  a token to the channel of the batch's processor, on every way out; the call returns
  once the send is done, and blocks when the channel is full.
\<close>

definition batch_Close ::
  "'p TblTxnProcessor \<Rightarrow> error option \<Rightarrow> (error option \<times> 'p TblTxnProcessor) blocking" where
  "batch_Close tp rollbackErr =
     (let r = (case rollbackErr of
                 Some err \<Rightarrow> if err \<noteq> ErrTxClosed then Some (Errorf_s ''closing batch'' err) else None
               | None \<Rightarrow> None)
      in case chan_send (chBatch tp) of
           None \<Rightarrow> Blocks
         | Some c \<Rightarrow> Returns (r, tp\<lparr>chBatch := c\<rparr>))"

section \<open>Notions the claims use\<close>

text \<open>
  The calls on a processor that touch its channel, each with what its environment gives
  it: \<open>OpenBatch\<close> with the outcome of \<open>BeginTx\<close>, \<open>Close\<close> of a batch with the outcome
  of \<open>Rollback\<close>, \<open>Close\<close> of the processor with the state of its context and the choice
  of \<open>select\<close>. \<open>after_call\<close> is the processor after a call that returns, \<open>None\<close> when
  the call blocks; \<open>after_calls\<close> is the processor after a sequence of calls that return
  one after the other, \<open>None\<close> when one of them blocks.
\<close>

datatype 's call =
    Call_OpenBatch "error + 's"
  | Call_batch_Close "error option"
  | Call_Close bool bool

fun is_batch_Close :: "'s call \<Rightarrow> bool" where
  "is_batch_Close (Call_batch_Close rollbackErr) = True"
| "is_batch_Close c = False"

fun after_call :: "'p TblTxnProcessor \<Rightarrow> 's call \<Rightarrow> 'p TblTxnProcessor option" where
  "after_call tp (Call_OpenBatch beginTx) =
     (case OpenBatch tp beginTx of Blocks \<Rightarrow> None | Returns (r, tp') \<Rightarrow> Some tp')"
| "after_call tp (Call_batch_Close rollbackErr) =
     (case batch_Close tp rollbackErr of Blocks \<Rightarrow> None | Returns (r, tp') \<Rightarrow> Some tp')"
| "after_call tp (Call_Close ctxDone pickCtx) =
     (case Close tp ctxDone pickCtx of Blocks \<Rightarrow> None | Returns (r, tp') \<Rightarrow> Some tp')"

fun after_calls :: "'p TblTxnProcessor \<Rightarrow> 's call list \<Rightarrow> 'p TblTxnProcessor option" where
  "after_calls tp [] = Some tp"
| "after_calls tp (c # cs) =
     (case after_call tp c of None \<Rightarrow> None | Some tp' \<Rightarrow> after_calls tp' cs)"

text \<open>
  A tree contains an \<open>SQLValueFunction\<close> node: the node itself or any node below it, in
  any field.
\<close>

fun contains_SqlvalueFunction :: "Node \<Rightarrow> bool"
  and contains_SqlvalueFunction_list :: "Node list \<Rightarrow> bool"
  and contains_SqlvalueFunction_opt :: "Node option \<Rightarrow> bool"
  and contains_SqlvalueFunction_names :: "Node list option \<Rightarrow> bool" where
  "contains_SqlvalueFunction N_SqlvalueFunction = True"
| "contains_SqlvalueFunction (N_RangeVar rangeVar) = False"
| "contains_SqlvalueFunction (N_String str) = False"
| "contains_SqlvalueFunction (N_InsertStmt rel sel ret) =
     (contains_SqlvalueFunction_opt sel \<or> contains_SqlvalueFunction_list ret)"
| "contains_SqlvalueFunction (N_SelectStmt tgt fr wh vl lock) =
     (contains_SqlvalueFunction_list tgt \<or> contains_SqlvalueFunction_list fr \<or>
      contains_SqlvalueFunction_opt wh \<or> contains_SqlvalueFunction_list vl \<or>
      contains_SqlvalueFunction_list lock)"
| "contains_SqlvalueFunction (N_UpdateStmt rel tgt wh fr ret) =
     (contains_SqlvalueFunction_list tgt \<or> contains_SqlvalueFunction_opt wh \<or>
      contains_SqlvalueFunction_list fr \<or> contains_SqlvalueFunction_list ret)"
| "contains_SqlvalueFunction (N_DeleteStmt rel wh ret) =
     (contains_SqlvalueFunction_opt wh \<or> contains_SqlvalueFunction_list ret)"
| "contains_SqlvalueFunction (N_RangeSubselect subquery) = contains_SqlvalueFunction_opt subquery"
| "contains_SqlvalueFunction (N_JoinExpr larg rarg) =
     (contains_SqlvalueFunction_opt larg \<or> contains_SqlvalueFunction_opt rarg)"
| "contains_SqlvalueFunction (N_A_Expr lexpr rexpr) =
     (contains_SqlvalueFunction_opt lexpr \<or> contains_SqlvalueFunction_opt rexpr)"
| "contains_SqlvalueFunction (N_BoolExpr args) = contains_SqlvalueFunction_list args"
| "contains_SqlvalueFunction (N_ResTarget val) = contains_SqlvalueFunction_opt val"
| "contains_SqlvalueFunction (N_SubLink subselect) = contains_SqlvalueFunction_opt subselect"
| "contains_SqlvalueFunction (N_List items) = contains_SqlvalueFunction_list items"
| "contains_SqlvalueFunction (N_ColumnDef colname names constraints) =
     (contains_SqlvalueFunction_names names \<or> contains_SqlvalueFunction_list constraints)"
| "contains_SqlvalueFunction (N_Constraint kind args) = contains_SqlvalueFunction_list args"
| "contains_SqlvalueFunction (N_CreateStmt rel elts ofTypename) =
     (contains_SqlvalueFunction_list elts \<or> contains_SqlvalueFunction_names ofTypename)"
| "contains_SqlvalueFunction (N_Other kind args) = contains_SqlvalueFunction_list args"
| "contains_SqlvalueFunction_list [] = False"
| "contains_SqlvalueFunction_list (n # ns) =
     (contains_SqlvalueFunction n \<or> contains_SqlvalueFunction_list ns)"
| "contains_SqlvalueFunction_opt None = False"
| "contains_SqlvalueFunction_opt (Some n) = contains_SqlvalueFunction n"
| "contains_SqlvalueFunction_names None = False"
| "contains_SqlvalueFunction_names (Some ns) = contains_SqlvalueFunction_list ns"

text \<open>
  The columns of a CREATE TABLE as the claims speak of them: the name and the type names
  of each column definition in declaration order, without the column's constraints and
  without the table-level constraints.
\<close>

fun columnDefs :: "Node list \<Rightarrow> (string \<times> Node list option) list" where
  "columnDefs [] = []"
| "columnDefs (N_ColumnDef colname names constraints # rest) = (colname, names) # columnDefs rest"
| "columnDefs (elt # rest) = columnDefs rest"

fun TableElts :: "Node \<Rightarrow> Node list" where
  "TableElts (N_CreateStmt rel elts ofTypename) = elts"
| "TableElts n = []"

text \<open>A column whose name holds neither separator and whose type name holds no comma.\<close>

definition separator_free :: "colNameType \<Rightarrow> bool" where
  "separator_free c =
     (CHR '':'' \<notin> set (colName c) \<and> CHR '','' \<notin> set (colName c) \<and> CHR '','' \<notin> set (typeName c))"

text \<open>Binding a statement to a sequence of table ids, one after the other.\<close>

definition bind_all :: "(Node \<Rightarrow> error + string) \<Rightarrow> createStmt \<Rightarrow> nat list \<Rightarrow> createStmt" where
  "bind_all Deparse cs tids = foldl (\<lambda>c tid. snd (GetRawQueryForTableID Deparse c tid)) cs tids"

text \<open>The value of a string of hexadecimal digits.\<close>

definition hexval :: "char \<Rightarrow> nat" where
  "hexval c = length (takeWhile (\<lambda>d. d \<noteq> c) ''0123456789abcdef'')"

definition from_hex :: "string \<Rightarrow> nat" where
  "from_hex s = foldl (\<lambda>acc c. 16 * acc + hexval c) 0 s"

section \<open>Sample statements\<close>

text \<open>
  The trees of \<open>INSERT INTO foo VALUES (1)\<close>, \<open>UPDATE foo SET a = a + 1 WHERE b = 2\<close>,
  \<open>UPDATE foo SET a = 1\<close> and \<open>INSERT INTO bar VALUES (1)\<close>, and a deparser that knows
  these four.
\<close>

definition insert_foo :: Node where
  "insert_foo = N_InsertStmt (RangeVar ''foo'')
     (Some (N_SelectStmt [] [] None [N_List [N_Other ''A_Const'' []]] [])) []"

definition update_foo_where :: Node where
  "update_foo_where = N_UpdateStmt (RangeVar ''foo'')
     [N_ResTarget (Some (N_A_Expr (Some (N_Other ''ColumnRef'' [])) (Some (N_Other ''A_Const'' []))))]
     (Some (N_A_Expr (Some (N_Other ''ColumnRef'' [])) (Some (N_Other ''A_Const'' [])))) [] []"

definition update_foo :: Node where
  "update_foo = N_UpdateStmt (RangeVar ''foo'') [N_ResTarget (Some (N_Other ''A_Const'' []))]
     None [] []"

definition insert_bar :: Node where
  "insert_bar = N_InsertStmt (RangeVar ''bar'')
     (Some (N_SelectStmt [] [] None [N_List [N_Other ''A_Const'' []]] [])) []"

definition sample_Deparse :: "Node \<Rightarrow> error + string" where
  "sample_Deparse stmt =
     (if stmt = insert_foo then Inr ''INSERT INTO foo VALUES (1)''
      else if stmt = update_foo_where then Inr ''UPDATE foo SET a = a + 1 WHERE b = 2''
      else if stmt = update_foo then Inr ''UPDATE foo SET a = 1''
      else if stmt = insert_bar then Inr ''INSERT INTO bar VALUES (1)''
      else Inl (ErrorNew ''deparse: unsupported node''))"

text \<open>
  The trees of \<open>CREATE TABLE foo (a int, b text)\<close>, of
  \<open>CREATE TABLE bar (UNIQUE (b), a int PRIMARY KEY, b text NOT NULL)\<close>, of
  \<open>CREATE TABLE t ("a:int4,b" int)\<close> and of \<open>CREATE TABLE t (a int, b int)\<close> (the parser
  writes \<open>int\<close> as \<open>pg_catalog.int4\<close>), and a validator with a few accepted types.
\<close>

definition create_foo :: Node where
  "create_foo = N_CreateStmt (RangeVar ''foo'')
     [N_ColumnDef ''a'' (Some [N_String ''pg_catalog'', N_String ''int4'']) [],
      N_ColumnDef ''b'' (Some [N_String ''text'']) []] None"

definition create_bar :: Node where
  "create_bar = N_CreateStmt (RangeVar ''bar'')
     [N_Constraint ''CONSTR_UNIQUE'' [N_String ''b''],
      N_ColumnDef ''a'' (Some [N_String ''pg_catalog'', N_String ''int4''])
        [N_Constraint ''CONSTR_PRIMARY'' []],
      N_ColumnDef ''b'' (Some [N_String ''text'']) [N_Constraint ''CONSTR_NOTNULL'' []]] None"

definition create_one_column :: Node where
  "create_one_column = N_CreateStmt (RangeVar ''t'')
     [N_ColumnDef ''a:int4,b'' (Some [N_String ''pg_catalog'', N_String ''int4'']) []] None"

definition create_two_columns :: Node where
  "create_two_columns = N_CreateStmt (RangeVar ''t'')
     [N_ColumnDef ''a'' (Some [N_String ''pg_catalog'', N_String ''int4'']) [],
      N_ColumnDef ''b'' (Some [N_String ''pg_catalog'', N_String ''int4'']) []] None"

definition sample_Deparse_create :: "Node \<Rightarrow> error + string" where
  "sample_Deparse_create stmt =
     (case stmt of
        N_CreateStmt rel elts ofTypename \<Rightarrow>
          Inr (''CREATE TABLE '' @ Relname rel @ '' (a int, b text)'')
      | _ \<Rightarrow> Inl (ErrorNew ''deparse: unsupported node''))"

definition sample_validator :: QueryValidator where
  "sample_validator = New [[''int'', ''int4''], [''text''], [''bool'']] ''system_''"

section \<open>A store in memory\<close>

text \<open>
  A small store for running the processor on concrete inputs: the rows of \<open>registry\<close>
  and \<open>system_acl\<close>, the CREATE statements executed, and the number of rows of the one
  user table, the table with id 2. It knows the statements below and refuses any other.
\<close>

record mem_store =
  mem_registry :: "(string \<times> string \<times> string \<times> string \<times> string) list"
  mem_system_acl :: "(string \<times> string \<times> string list) list"
  mem_created :: "string list"
  mem_rows :: "64 word"

definition mem_Exec :: "mem_store \<Rightarrow> db_cmd \<Rightarrow> error + mem_store \<times> CommandTag" where
  "mem_Exec s cmd =
     (case cmd of
        InsertRegistry dbID controller name structure description \<Rightarrow>
          if List.member (map fst (mem_registry s)) dbID
          then Inl (ErrorNew ''duplicate key value violates unique constraint'')
          else Inr (s\<lparr>mem_registry := mem_registry s @ [(dbID, controller, name, structure, description)]\<rparr>,
                    \<lparr>Insert = True, RowsAffected = 1\<rparr>)
      | InsertSystemACL dbID controller privileges \<Rightarrow>
          if List.member (map (\<lambda>(i, c, p). (i, c)) (mem_system_acl s)) (dbID, controller)
          then Inl (ErrorNew ''duplicate key value violates unique constraint'')
          else Inr (s\<lparr>mem_system_acl := mem_system_acl s @ [(dbID, controller, privileges)]\<rparr>,
                    \<lparr>Insert = True, RowsAffected = 1\<rparr>)
      | UpsertSystemACL dbID role privileges \<Rightarrow>
          Inr (s\<lparr>mem_system_acl :=
                  (if List.member (map (\<lambda>(i, c, p). (i, c)) (mem_system_acl s)) (dbID, role)
                   then map (\<lambda>(i, c, p). if (i, c) = (dbID, role)
                                          then (i, c, remdups (p @ privileges)) else (i, c, p))
                          (mem_system_acl s)
                   else mem_system_acl s @ [(dbID, role, privileges)])\<rparr>,
               \<lparr>Insert = True, RowsAffected = 1\<rparr>)
      | RemoveSystemACL dbID role privAbbr \<Rightarrow>
          Inr (s\<lparr>mem_system_acl :=
                  map (\<lambda>(i, c, p). if (i, c) = (dbID, role)
                                     then (i, c, removeAll privAbbr p) else (i, c, p))
                    (mem_system_acl s)\<rparr>,
               \<lparr>Insert = False, RowsAffected = 1\<rparr>)
      | Query q \<Rightarrow>
          if q = ''INSERT INTO _2 VALUES (1)''
          then Inr (s\<lparr>mem_rows := mem_rows s + 1\<rparr>, \<lparr>Insert = True, RowsAffected = 1\<rparr>)
          else if q = ''INSERT INTO _2 VALUES (1), (2)''
          then Inr (s\<lparr>mem_rows := mem_rows s + 2\<rparr>, \<lparr>Insert = True, RowsAffected = 2\<rparr>)
          else if q = ''UPDATE _2 SET a = 0''
          then Inr (s, \<lparr>Insert = False, RowsAffected = mem_rows s\<rparr>)
          else if HasPrefix q ''CREATE TABLE ''
          then Inr (s\<lparr>mem_created := mem_created s @ [q]\<rparr>, \<lparr>Insert = False, RowsAffected = 0\<rparr>)
          else Inl (ErrorNew ''syntax error''))"

text \<open>The decimal text of a table id (\<open>id.String()\<close>), which the numeric argument holds.\<close>

function to_dec :: "nat \<Rightarrow> string" where
  "to_dec n = (if n < 10 then [hexdigit n] else to_dec (n div 10) @ [hexdigit (n mod 10)])"
  by pat_completeness auto
termination
  by (relation "measure id") auto

declare to_dec.simps [simp del]

definition mem_QueryRowScan :: "mem_store \<Rightarrow> string \<Rightarrow> nat \<Rightarrow> scan" where
  "mem_QueryRowScan s dbID tid =
     (if tid \<noteq> 2 then ScanError (ErrorNew ''relation does not exist'')
      else case filter (\<lambda>(i, c, n, st, de). i = dbID) (mem_registry s) of
             [] \<Rightarrow> ScanError (ErrorNew ''cannot scan NULL into *string'')
           | (i, c, n, st, de) # further \<Rightarrow> Scanned n (mem_rows s))"

definition mem_deps :: "mem_store deps" where
  "mem_deps =
     \<lparr>NumericSet = (\<lambda>tid. Inr (to_dec tid)),
      Exec = mem_Exec,
      QueryRowScan = mem_QueryRowScan,
      CheckPrivileges = (\<lambda>tx controller tid operation. None),
      IsOwner = (\<lambda>controller tid. Inr True)\<rparr>"

text \<open>
  A store whose table 2, registered as \<open>foo\<close>, holds 9 rows, the empty store, the
  statement \<open>ValidateCreateTable\<close> returns for \<open>create_foo\<close>, two write statements on
  table 2 (an INSERT of one row and an INSERT of two rows), and a processor with a cap of
  10 rows.
\<close>

definition store_9_rows :: mem_store where
  "store_9_rows =
     \<lparr>mem_registry = [(''2'', ''0xabc'', ''foo'', ''4e1113fe'', ''a table'')],
      mem_system_acl = [(''2'', ''0xabc'', [''a'', ''w'', ''d''])],
      mem_created = [''CREATE TABLE t0x0000000000000002 (a int)''],
      mem_rows = 9\<rparr>"

definition empty_store :: mem_store where
  "empty_store = \<lparr>mem_registry = [], mem_system_acl = [], mem_created = [], mem_rows = 0\<rparr>"

definition accepted_create_foo :: createStmt where
  "accepted_create_foo =
     \<lparr>cNode = create_foo,
      structureHash = hex_EncodeToString (sha256_Sum (str_bytes ''a:int4,b:text'')),
      namePrefix = ''foo''\<rparr>"

definition one_row_insert :: SugaredWriteStmt where
  "one_row_insert =
     \<lparr>ws_NamePrefix = ''foo'', ws_TableID = 2, ws_Operation = OpInsert,
      ws_DesugaredQuery = Inr ''INSERT INTO _2 VALUES (1)''\<rparr>"

definition two_row_insert :: SugaredWriteStmt where
  "two_row_insert =
     \<lparr>ws_NamePrefix = ''foo'', ws_TableID = 2, ws_Operation = OpInsert,
      ws_DesugaredQuery = Inr ''INSERT INTO _2 VALUES (1), (2)''\<rparr>"

definition processor_max_10 :: "unit TblTxnProcessor" where
  "processor_max_10 = \<lparr>pool = (), chBatch = 0, maxTableRowCount = 10\<rparr>"

section \<open>Properties of the query validator\<close>

text \<open>
  Claim C2: every read query that references a relation whose name begins with the system
  prefix, directly in FROM or through sub-selects and joins, is rejected by
  \<open>ValidateRunSQL\<close> with \<open>ErrSystemTableReferencing\<close>. The code does not do this:
  \<open>validateReadQuery\<close> never calls \<open>checkNoSystemTablesReferencing\<close>. The query
  \<open>select * from system_tables\<close> validates as a read query, although the walk, applied
  to the same statement, reports the reference; and
  \<open>select * from foo inner join system_tables on a = b\<close> is rejected, but as a join.
\<close>

theorem C2_read_query_on_system_table_is_accepted:
  "ValidateRunSQL Deparse (New AcceptedTypes ''system_'')
     (Inr [N_SelectStmt [N_ResTarget (Some (N_Other ''ColumnRef'' [N_Other ''A_Star'' []]))]
             [N_RangeVar (RangeVar ''system_tables'')] None [] []])
     = Inr (ReadQuery, []) \<and>
   checkNoSystemTablesReferencing
     (Some (N_SelectStmt [N_ResTarget (Some (N_Other ''ColumnRef'' [N_Other ''A_Star'' []]))]
             [N_RangeVar (RangeVar ''system_tables'')] None [] [])) ''system_''
     = Some (Errorf_w ''from clause'' ErrSystemTableReferencing) \<and>
   ValidateRunSQL Deparse (New AcceptedTypes ''system_'')
     (Inr [N_SelectStmt [N_ResTarget (Some (N_Other ''ColumnRef'' [N_Other ''A_Star'' []]))]
             [N_JoinExpr (Some (N_RangeVar (RangeVar ''foo'')))
                         (Some (N_RangeVar (RangeVar ''system_tables'')))] None [] []])
     = Inl (Errorf_w ''validating read-query''
             (Errorf_w ''join or subquery in from'' ErrJoinOrSubquery))"
  by (simp add: ValidateRunSQL_def checkNonEmptyStatement_def checkSingleStatement_def
        wrap_w_def HasPrefix_def)

text \<open>
  Claim C3: no write statement that \<open>ValidateRunSQL\<close> accepts contains an
  \<open>SQLValueFunction\<close> node, in particular not below a \<open>BoolExpr\<close> in WHERE. The code
  misses this case: \<open>checkNonDeterministicFunctions\<close> has no branch for \<open>BoolExpr\<close>
  (\<open>checkNoJoinOrSubquery\<close> has one). The statement
  \<open>UPDATE foo SET a = 1 WHERE b = current_timestamp AND c = 1\<close> is accepted, while the
  same comparison alone in WHERE is rejected.
\<close>

theorem C3_SqlvalueFunction_below_BoolExpr_is_accepted:
  "contains_SqlvalueFunction
     (N_UpdateStmt (RangeVar ''foo'') [N_ResTarget (Some (N_Other ''A_Const'' []))]
        (Some (N_BoolExpr
           [N_A_Expr (Some (N_Other ''ColumnRef'' [])) (Some N_SqlvalueFunction),
            N_A_Expr (Some (N_Other ''ColumnRef'' [])) (Some (N_Other ''A_Const'' []))]))
        [] []) \<and>
   ValidateRunSQL
     (\<lambda>stmt. Inr ''UPDATE foo SET a = 1 WHERE b = CURRENT_TIMESTAMP AND c = 1'')
     (New AcceptedTypes ''system_'')
     (Inr [N_UpdateStmt (RangeVar ''foo'') [N_ResTarget (Some (N_Other ''A_Const'' []))]
        (Some (N_BoolExpr
           [N_A_Expr (Some (N_Other ''ColumnRef'' [])) (Some N_SqlvalueFunction),
            N_A_Expr (Some (N_Other ''ColumnRef'' [])) (Some (N_Other ''A_Const'' []))]))
        [] []])
     = Inr (WriteQuery,
            [\<lparr>rawQuery = ''UPDATE foo SET a = 1 WHERE b = CURRENT_TIMESTAMP AND c = 1'',
              tableName = ''foo''\<rparr>]) \<and>
   validateWriteQuery (New AcceptedTypes ''system_'')
     (N_UpdateStmt (RangeVar ''foo'') [N_ResTarget (Some (N_Other ''A_Const'' []))]
        (Some (N_A_Expr (Some (N_Other ''ColumnRef'' [])) (Some N_SqlvalueFunction)))
        [] [])
     = Inl (Errorf_w ''no non-deterministic func check''
             (Errorf_w ''where clause''
               (Errorf_w ''aexpr right'' ErrNonDeterministicFunction)))"
  by (simp add: ValidateRunSQL_def validateWriteQuery_def checkNonEmptyStatement_def
        New_def wrap_w_def HasPrefix_def)

lemma validateWriteQuery_not_select:
  "validateWriteQuery pp s = Inr t \<Longrightarrow> \<not> GetSelectStmt s"
  by (cases s) (simp_all add: validateWriteQuery_def)

text \<open>
  The loop of the write path when every statement references \<open>t\<close>: started with no
  target table or with \<open>t\<close>, it writes one statement per input statement.
\<close>

lemma validateWriteStmts_same:
  "\<forall>s\<in>set stmts. validateWriteQuery pp s = Inr t \<and> (\<exists>q. Deparse s = Inr q) \<Longrightarrow>
   tt = [] \<or> tt = t \<Longrightarrow>
   validateWriteStmts Deparse pp tt acc stmts
     = Inr (acc @ map (\<lambda>s. \<lparr>rawQuery = projr (Deparse s), tableName = t\<rparr>) stmts)"
proof (induction stmts arbitrary: tt acc)
  case Nil
  then show ?case by simp
next
  case (Cons s rest)
  from Cons.prems obtain q where v: "validateWriteQuery pp s = Inr t" and d: "Deparse s = Inr q"
    by auto
  have rest: "\<forall>s\<in>set rest. validateWriteQuery pp s = Inr t \<and> (\<exists>q. Deparse s = Inr q)"
    using Cons.prems by simp
  have step: "validateWriteStmts Deparse pp tt acc (s # rest)
                = validateWriteStmts Deparse pp t (acc @ [\<lparr>rawQuery = q, tableName = t\<rparr>]) rest"
    using Cons.prems(2) v d by auto
  show ?case
    unfolding step using Cons.IH [OF rest, of t] d by simp
qed

text \<open>
  The loop when the statements of \<open>pre\<close> reference \<open>t1\<close> and the next one \<open>t2\<close>: it stops
  there with the two names.
\<close>

lemma validateWriteStmts_differs:
  "\<forall>s\<in>set pre. validateWriteQuery pp s = Inr t1 \<and> (\<exists>q. Deparse s = Inr q) \<Longrightarrow>
   validateWriteQuery pp s' = Inr t2 \<Longrightarrow> t2 \<noteq> t1 \<Longrightarrow> t1 \<noteq> [] \<Longrightarrow>
   tt = t1 \<or> (tt = [] \<and> pre \<noteq> []) \<Longrightarrow>
   validateWriteStmts Deparse pp tt acc (pre @ s' # post) = Inl (ErrMultiTableReference t1 t2)"
proof (induction pre arbitrary: tt acc)
  case Nil
  then show ?case by auto
next
  case (Cons s rest)
  from Cons.prems obtain q where v: "validateWriteQuery pp s = Inr t1" and d: "Deparse s = Inr q"
    by auto
  have rest: "\<forall>s\<in>set rest. validateWriteQuery pp s = Inr t1 \<and> (\<exists>q. Deparse s = Inr q)"
    using Cons.prems by simp
  have step: "validateWriteStmts Deparse pp tt acc ((s # rest) @ s' # post)
                = validateWriteStmts Deparse pp t1 (acc @ [\<lparr>rawQuery = q, tableName = t1\<rparr>])
                    (rest @ s' # post)"
    using Cons.prems(5) v d by auto
  show ?case
    unfolding step
    by (rule Cons.IH [OF rest Cons.prems(2) Cons.prems(3) Cons.prems(4)]) simp
qed

text \<open>
  Claim C5. A write input of one or more statements, each of which passes
  \<open>validateWriteQuery\<close> and is deparsed by the parser library: if every statement
  references the table \<open>t\<close>, \<open>ValidateRunSQL\<close> returns \<open>WriteQuery\<close> and one write
  statement per input statement, in order, each with its deparsed text and the table name
  \<open>t\<close>. If the statements \<open>pre\<close> (at least one) reference \<open>t1\<close> and the next statement
  \<open>s'\<close> references another table \<open>t2\<close>, the call fails with
  \<open>ErrMultiTableReference t1 t2\<close>, whatever follows \<open>s'\<close>. Relation names are not empty
  (the parser refuses a zero-length identifier), which the second case uses for \<open>t1\<close>.
\<close>

theorem C5_multi_statement_write:
  "(stmts \<noteq> [] \<and> (\<forall>s\<in>set stmts. validateWriteQuery pp s = Inr t \<and> (\<exists>q. Deparse s = Inr q))
      \<longrightarrow> ValidateRunSQL Deparse pp (Inr stmts)
            = Inr (WriteQuery, map (\<lambda>s. \<lparr>rawQuery = projr (Deparse s), tableName = t\<rparr>) stmts)) \<and>
   (pre \<noteq> [] \<and> (\<forall>s\<in>set pre. validateWriteQuery pp s = Inr t1 \<and> (\<exists>q. Deparse s = Inr q))
      \<and> t1 \<noteq> [] \<and> validateWriteQuery pp s' = Inr t2 \<and> t2 \<noteq> t1
      \<longrightarrow> ValidateRunSQL Deparse pp (Inr (pre @ s' # post)) = Inl (ErrMultiTableReference t1 t2))"
proof (intro conjI impI)
  assume a: "stmts \<noteq> [] \<and> (\<forall>s\<in>set stmts. validateWriteQuery pp s = Inr t \<and> (\<exists>q. Deparse s = Inr q))"
  then obtain s0 rest where st: "stmts = s0 # rest" by (cases stmts) auto
  have ns: "\<not> GetSelectStmt s0"
    using a st validateWriteQuery_not_select [of pp s0 t] by simp
  have loop: "validateWriteStmts Deparse pp [] [] stmts
                = Inr ([] @ map (\<lambda>s. \<lparr>rawQuery = projr (Deparse s), tableName = t\<rparr>) stmts)"
    by (rule validateWriteStmts_same) (use a in auto)
  show "ValidateRunSQL Deparse pp (Inr stmts)
          = Inr (WriteQuery, map (\<lambda>s. \<lparr>rawQuery = projr (Deparse s), tableName = t\<rparr>) stmts)"
    using ns loop unfolding st by (simp add: ValidateRunSQL_def checkNonEmptyStatement_def)
next
  assume b: "pre \<noteq> [] \<and> (\<forall>s\<in>set pre. validateWriteQuery pp s = Inr t1 \<and> (\<exists>q. Deparse s = Inr q))
      \<and> t1 \<noteq> [] \<and> validateWriteQuery pp s' = Inr t2 \<and> t2 \<noteq> t1"
  then obtain s0 rest where st: "pre = s0 # rest" by (cases pre) auto
  have ns: "\<not> GetSelectStmt s0"
    using b st validateWriteQuery_not_select [of pp s0 t1] by simp
  have loop: "validateWriteStmts Deparse pp [] [] (pre @ s' # post)
                = Inl (ErrMultiTableReference t1 t2)"
    by (rule validateWriteStmts_differs) (use b in auto)
  show "ValidateRunSQL Deparse pp (Inr (pre @ s' # post)) = Inl (ErrMultiTableReference t1 t2)"
    using ns loop unfolding st by (simp add: ValidateRunSQL_def checkNonEmptyStatement_def)
qed

lemma sample_validateWriteQuery:
  "validateWriteQuery (New AcceptedTypes ''system_'') insert_foo = Inr ''foo''"
  "validateWriteQuery (New AcceptedTypes ''system_'') update_foo_where = Inr ''foo''"
  "validateWriteQuery (New AcceptedTypes ''system_'') update_foo = Inr ''foo''"
  "validateWriteQuery (New AcceptedTypes ''system_'') insert_bar = Inr ''bar''"
  by (simp_all add: validateWriteQuery_def New_def wrap_w_def HasPrefix_def
        insert_foo_def update_foo_where_def update_foo_def insert_bar_def)

lemma sample_Deparse_simps:
  "sample_Deparse insert_foo = Inr ''INSERT INTO foo VALUES (1)''"
  "sample_Deparse update_foo_where = Inr ''UPDATE foo SET a = a + 1 WHERE b = 2''"
  "sample_Deparse update_foo = Inr ''UPDATE foo SET a = 1''"
  by (simp_all add: sample_Deparse_def insert_foo_def update_foo_where_def update_foo_def)

theorem C5_multi_statement_write_witness:
  "ValidateRunSQL sample_Deparse (New [[''int'', ''int4''], [''text'']] ''system_'')
     (Inr [insert_foo, update_foo_where])
     = Inr (WriteQuery,
            [\<lparr>rawQuery = ''INSERT INTO foo VALUES (1)'', tableName = ''foo''\<rparr>,
             \<lparr>rawQuery = ''UPDATE foo SET a = a + 1 WHERE b = 2'', tableName = ''foo''\<rparr>]) \<and>
   ValidateRunSQL sample_Deparse (New [[''int'', ''int4''], [''text'']] ''system_'')
     (Inr ([update_foo] @ insert_bar # []))
     = Inl (ErrMultiTableReference ''foo'' ''bar'')"
  using C5_multi_statement_write
          [of "[insert_foo, update_foo_where]" "New [[''int'', ''int4''], [''text'']] ''system_''"
              "''foo''" sample_Deparse "[update_foo]" "''foo''" insert_bar "''bar''" "[]"]
  by (simp add: sample_validateWriteQuery sample_Deparse_simps)

subsection \<open>The structure hash\<close>

text \<open>The columns \<open>checkTableElts\<close> returns are a function of the column definitions alone.\<close>

lemma checkTableElts_columnDefs:
  "checkTableElts a cols elts = Inr r \<Longrightarrow>
   r = cols @ map (\<lambda>(c, names). \<lparr>colName = c, typeName = projr (AcceptedTypesFor a (the names))\<rparr>)
                (columnDefs elts)"
  by (induction a cols elts arbitrary: r rule: checkTableElts.induct)
     (auto split: sum.splits)

text \<open>
  Joining with a one-character separator is injective on non-empty items that do not hold
  the separator: the first item is what precedes the first separator.
\<close>

lemma takeWhile_sep: "sep \<notin> set x \<Longrightarrow> takeWhile (\<lambda>c. c \<noteq> sep) (x @ sep # r) = x"
  by (induction x) auto

lemma takeWhile_no_sep: "sep \<notin> set x \<Longrightarrow> takeWhile (\<lambda>c. c \<noteq> sep) x = x"
  by (induction x) auto

lemma dropWhile_sep: "sep \<notin> set x \<Longrightarrow> dropWhile (\<lambda>c. c \<noteq> sep) (x @ sep # r) = sep # r"
  by (induction x) auto

lemma dropWhile_no_sep: "sep \<notin> set x \<Longrightarrow> dropWhile (\<lambda>c. c \<noteq> sep) x = []"
  by (induction x) auto

lemma Join_Cons: "Join (x # xs) [sep] = (if xs = [] then x else x @ sep # Join xs [sep])"
  by (cases xs) simp_all

lemma takeWhile_Join:
  "sep \<notin> set x \<Longrightarrow> takeWhile (\<lambda>c. c \<noteq> sep) (Join (x # xs) [sep]) = x"
  by (simp add: Join_Cons takeWhile_sep takeWhile_no_sep del: Join.simps)

lemma dropWhile_Join:
  "sep \<notin> set x \<Longrightarrow>
   dropWhile (\<lambda>c. c \<noteq> sep) (Join (x # xs) [sep]) = (if xs = [] then [] else sep # Join xs [sep])"
  by (simp add: Join_Cons dropWhile_sep dropWhile_no_sep del: Join.simps)

lemma Join_Cons_not_Nil: "x \<noteq> [] \<Longrightarrow> Join (x # xs) [sep] \<noteq> []"
  by (simp add: Join_Cons del: Join.simps)

lemma Join_sep_inj:
  "\<forall>x\<in>set xs. x \<noteq> [] \<and> sep \<notin> set x \<Longrightarrow>
   \<forall>y\<in>set ys. y \<noteq> [] \<and> sep \<notin> set y \<Longrightarrow>
   Join xs [sep] = Join ys [sep] \<Longrightarrow> xs = ys"
proof (induction xs arbitrary: ys)
  case Nil
  show ?case
  proof (cases ys)
    case Nil
    then show ?thesis by simp
  next
    case (Cons y ys')
    with Nil.prems(2) have "Join (y # ys') [sep] \<noteq> []"
      by (intro Join_Cons_not_Nil) simp
    with Nil.prems(3) Cons show ?thesis by simp
  qed
next
  case (Cons x xs)
  show ?case
  proof (cases ys)
    case Nil
    from Cons.prems(1) have "Join (x # xs) [sep] \<noteq> []"
      by (intro Join_Cons_not_Nil) simp
    with Cons.prems(3) Nil show ?thesis by simp
  next
    case (Cons y ys')
    have x: "sep \<notin> set x" and y: "sep \<notin> set y"
      using Cons.prems(1,2) Cons by auto
    have eq: "Join (x # xs) [sep] = Join (y # ys') [sep]"
      using Cons.prems(3) Cons by simp
    have "takeWhile (\<lambda>c. c \<noteq> sep) (Join (x # xs) [sep])
            = takeWhile (\<lambda>c. c \<noteq> sep) (Join (y # ys') [sep])"
      using eq by simp
    then have xy: "x = y"
      by (simp only: takeWhile_Join [OF x] takeWhile_Join [OF y])
    have "dropWhile (\<lambda>c. c \<noteq> sep) (Join (x # xs) [sep])
            = dropWhile (\<lambda>c. c \<noteq> sep) (Join (y # ys') [sep])"
      using eq by simp
    then have rest: "(if xs = [] then [] else sep # Join xs [sep])
                       = (if ys' = [] then [] else sep # Join ys' [sep])"
      by (simp only: dropWhile_Join [OF x] dropWhile_Join [OF y])
    have "xs = ys'"
    proof (cases "xs = []")
      case True
      with rest show ?thesis by (auto split: if_splits)
    next
      case False
      with rest have j: "Join xs [sep] = Join ys' [sep]"
        by (auto split: if_splits)
      show ?thesis
        by (rule Cons.IH) (use Cons.prems(1,2) Cons j in auto)
    qed
    with xy Cons show ?thesis by simp
  qed
qed

lemma colNameType_item_inj:
  fixes c c' :: colNameType
  shows "CHR '':'' \<notin> set (colName c) \<Longrightarrow> CHR '':'' \<notin> set (colName c') \<Longrightarrow>
   colName c @ '':'' @ typeName c = colName c' @ '':'' @ typeName c' \<Longrightarrow> c = c'"
proof -
  assume a: "CHR '':'' \<notin> set (colName c)" and b: "CHR '':'' \<notin> set (colName c')"
    and eq: "colName c @ '':'' @ typeName c = colName c' @ '':'' @ typeName c'"
  have "takeWhile (\<lambda>x. x \<noteq> CHR '':'') (colName c @ CHR '':'' # typeName c)
          = takeWhile (\<lambda>x. x \<noteq> CHR '':'') (colName c' @ CHR '':'' # typeName c')"
    using eq by simp
  then have n: "colName c = colName c'"
    by (simp only: takeWhile_sep [OF a] takeWhile_sep [OF b])
  with eq have "typeName c = typeName c'" by simp
  with n show "c = c'" by simp
qed

lemma stringifiedColDef_inj:
  "list_all separator_free cols1 \<Longrightarrow> list_all separator_free cols2 \<Longrightarrow>
   stringifiedColDef cols1 = stringifiedColDef cols2 \<Longrightarrow> cols1 = cols2"
proof -
  let ?item = "\<lambda>c :: colNameType. colName c @ '':'' @ typeName c"
  assume s1: "list_all separator_free cols1" and s2: "list_all separator_free cols2"
    and eq: "stringifiedColDef cols1 = stringifiedColDef cols2"
  have i1: "\<forall>x\<in>set (map ?item cols1). x \<noteq> [] \<and> CHR '','' \<notin> set x"
    using s1 by (auto simp: list_all_iff separator_free_def)
  have i2: "\<forall>x\<in>set (map ?item cols2). x \<noteq> [] \<and> CHR '','' \<notin> set x"
    using s2 by (auto simp: list_all_iff separator_free_def)
  have m: "map ?item cols1 = map ?item cols2"
    using Join_sep_inj [OF i1 i2] eq by (simp add: stringifiedColDef_def)
  have "inj_on ?item (set cols1 \<union> set cols2)"
    using s1 s2 by (auto simp: inj_on_def list_all_iff separator_free_def
                        intro!: colNameType_item_inj)
  then show "cols1 = cols2"
    using m by (simp add: inj_on_map_eq_map)
qed

text \<open>What an accepted CREATE TABLE was made from.\<close>

lemma ValidateCreateTable_Inr:
  "ValidateCreateTable pp parsed = Inr cs \<Longrightarrow>
   \<exists>cols. parsed = Inr [cNode cs] \<and>
           checkCreateColTypes (cNode cs) (acceptedTypesNames pp) = Inr cols \<and>
           checkTableElts (acceptedTypesNames pp) [] (TableElts (cNode cs)) = Inr cols \<and>
           structureHash cs = hex_EncodeToString (sha256_Sum (str_bytes (stringifiedColDef cols)))"
  apply (cases parsed)
   apply (simp add: ValidateCreateTable_def)
  subgoal for stmts
    apply (cases stmts)
     apply (simp add: ValidateCreateTable_def checkNonEmptyStatement_def)
    subgoal for stmt rest
      apply (cases stmt)
      apply (auto simp: ValidateCreateTable_def checkNonEmptyStatement_def checkSingleStatement_def
               split: option.splits sum.splits if_splits)
      done
    done
  done

text \<open>
  Claim C6, as stated: two accepted CREATE TABLE statements have different structure
  hashes whenever some column name or column type differs. The hash is taken over the
  text \<open>name:type,name:type,...\<close>, and a quoted column name may hold \<open>:\<close> and \<open>,\<close>: the
  one-column table \<open>t ("a:int4,b" int)\<close> and the two-column table \<open>t (a int, b int)\<close> are
  both accepted and both hash the text \<open>a:int4,b:int4\<close>.
\<close>

theorem C6_structure_hash_counterexample:
  "ValidateCreateTable sample_validator (Inr [create_one_column])
     = Inr \<lparr>cNode = create_one_column,
            structureHash = hex_EncodeToString (sha256_Sum (str_bytes ''a:int4,b:int4'')),
            namePrefix = ''t''\<rparr> \<and>
   ValidateCreateTable sample_validator (Inr [create_two_columns])
     = Inr \<lparr>cNode = create_two_columns,
            structureHash = hex_EncodeToString (sha256_Sum (str_bytes ''a:int4,b:int4'')),
            namePrefix = ''t''\<rparr> \<and>
   map fst (columnDefs (TableElts create_one_column)) = [''a:int4,b''] \<and>
   map fst (columnDefs (TableElts create_two_columns)) = [''a'', ''b'']"
  by (simp add: ValidateCreateTable_def sample_validator_def New_def
        create_one_column_def create_two_columns_def
        checkNonEmptyStatement_def checkSingleStatement_def stringifiedColDef_def)

text \<open>
  Claim C6, amended. For two accepted CREATE TABLE statements: if they have the same
  column names and type names in the same order, whatever their column constraints and
  wherever their table constraints stand, their structure hashes are equal. Each hash
  is the hex SHA-256 of the comma-joined \<open>name:type\<close> text of the statement's columns
  (the names as declared, the types as matched against the accepted names); if the two
  column lists differ and no column name holds \<open>:\<close> or \<open>,\<close> and no type name holds \<open>,\<close>,
  the two hashed texts differ, so the hashes differ unless SHA-256 collides.
\<close>

theorem C6_structure_hash:
  "ValidateCreateTable pp parsed1 = Inr cs1 \<Longrightarrow> ValidateCreateTable pp parsed2 = Inr cs2 \<Longrightarrow>
   (columnDefs (TableElts (cNode cs1)) = columnDefs (TableElts (cNode cs2))
      \<longrightarrow> structureHash cs1 = structureHash cs2) \<and>
   (\<exists>cols1 cols2.
      checkCreateColTypes (cNode cs1) (acceptedTypesNames pp) = Inr cols1 \<and>
      checkCreateColTypes (cNode cs2) (acceptedTypesNames pp) = Inr cols2 \<and>
      map colName cols1 = map fst (columnDefs (TableElts (cNode cs1))) \<and>
      map colName cols2 = map fst (columnDefs (TableElts (cNode cs2))) \<and>
      structureHash cs1 = hex_EncodeToString (sha256_Sum (str_bytes (stringifiedColDef cols1))) \<and>
      structureHash cs2 = hex_EncodeToString (sha256_Sum (str_bytes (stringifiedColDef cols2))) \<and>
      (cols1 \<noteq> cols2 \<and> list_all separator_free cols1 \<and> list_all separator_free cols2
         \<longrightarrow> stringifiedColDef cols1 \<noteq> stringifiedColDef cols2))"
proof -
  assume v1: "ValidateCreateTable pp parsed1 = Inr cs1"
    and v2: "ValidateCreateTable pp parsed2 = Inr cs2"
  from ValidateCreateTable_Inr [OF v1] obtain cols1 where
    c1: "checkCreateColTypes (cNode cs1) (acceptedTypesNames pp) = Inr cols1"
    and e1: "checkTableElts (acceptedTypesNames pp) [] (TableElts (cNode cs1)) = Inr cols1"
    and h1: "structureHash cs1 = hex_EncodeToString (sha256_Sum (str_bytes (stringifiedColDef cols1)))"
    by blast
  from ValidateCreateTable_Inr [OF v2] obtain cols2 where
    c2: "checkCreateColTypes (cNode cs2) (acceptedTypesNames pp) = Inr cols2"
    and e2: "checkTableElts (acceptedTypesNames pp) [] (TableElts (cNode cs2)) = Inr cols2"
    and h2: "structureHash cs2 = hex_EncodeToString (sha256_Sum (str_bytes (stringifiedColDef cols2)))"
    by blast
  note d1 = checkTableElts_columnDefs [OF e1]
  note d2 = checkTableElts_columnDefs [OF e2]
  have same: "columnDefs (TableElts (cNode cs1)) = columnDefs (TableElts (cNode cs2))
                \<longrightarrow> structureHash cs1 = structureHash cs2"
    using d1 d2 h1 h2 by simp
  have n1: "map colName cols1 = map fst (columnDefs (TableElts (cNode cs1)))"
    by (subst d1) (simp add: case_prod_beta comp_def)
  have n2: "map colName cols2 = map fst (columnDefs (TableElts (cNode cs2)))"
    by (subst d2) (simp add: case_prod_beta comp_def)
  have differ: "cols1 \<noteq> cols2 \<and> list_all separator_free cols1 \<and> list_all separator_free cols2
                  \<longrightarrow> stringifiedColDef cols1 \<noteq> stringifiedColDef cols2"
    using stringifiedColDef_inj [of cols1 cols2] by blast
  from same c1 c2 n1 n2 h1 h2 differ show ?thesis by blast
qed


lemma sample_ValidateCreateTable:
  "ValidateCreateTable sample_validator (Inr [create_foo])
     = Inr \<lparr>cNode = create_foo,
            structureHash = hex_EncodeToString (sha256_Sum (str_bytes ''a:int4,b:text'')),
            namePrefix = ''foo''\<rparr>"
  "ValidateCreateTable sample_validator (Inr [create_bar])
     = Inr \<lparr>cNode = create_bar,
            structureHash = hex_EncodeToString (sha256_Sum (str_bytes ''a:int4,b:text'')),
            namePrefix = ''bar''\<rparr>"
  by (simp_all add: ValidateCreateTable_def sample_validator_def New_def
        create_foo_def create_bar_def
        checkNonEmptyStatement_def checkSingleStatement_def stringifiedColDef_def)

theorem C6_structure_hash_witness:
  "ValidateCreateTable sample_validator (Inr [create_foo])
     = Inr \<lparr>cNode = create_foo,
            structureHash = hex_EncodeToString (sha256_Sum (str_bytes ''a:int4,b:text'')),
            namePrefix = ''foo''\<rparr> \<and>
   ValidateCreateTable sample_validator (Inr [create_bar])
     = Inr \<lparr>cNode = create_bar,
            structureHash = hex_EncodeToString (sha256_Sum (str_bytes ''a:int4,b:text'')),
            namePrefix = ''bar''\<rparr> \<and>
   columnDefs (TableElts create_foo) = columnDefs (TableElts create_bar) \<and>
   structureHash \<lparr>cNode = create_foo,
            structureHash = hex_EncodeToString (sha256_Sum (str_bytes ''a:int4,b:text'')),
            namePrefix = ''foo''\<rparr>
     = structureHash \<lparr>cNode = create_bar,
            structureHash = hex_EncodeToString (sha256_Sum (str_bytes ''a:int4,b:text'')),
            namePrefix = ''bar''\<rparr>"
  using C6_structure_hash [OF sample_ValidateCreateTable(1) sample_ValidateCreateTable(2)]
        sample_ValidateCreateTable
  by (simp add: create_foo_def create_bar_def)

subsection \<open>Binding a CREATE TABLE statement to a table id\<close>

text \<open>The hexadecimal text of a number: its digits, its length, and its value read back.\<close>

lemma hexdigit_cases:
  "d < 16 \<Longrightarrow> d = 0 \<or> d = 1 \<or> d = 2 \<or> d = 3 \<or> d = 4 \<or> d = 5 \<or> d = 6 \<or> d = 7 \<or>
              d = 8 \<or> d = 9 \<or> d = 10 \<or> d = 11 \<or> d = 12 \<or> d = 13 \<or> d = 14 \<or> d = (15 :: nat)"
  by arith

lemma hexval_hexdigit: "d < 16 \<Longrightarrow> hexval (hexdigit d) = d"
  using hexdigit_cases [of d] by (auto simp: hexval_def hexdigit_def)

lemma hexdigit_in_digits: "d < 16 \<Longrightarrow> hexdigit d \<in> set ''0123456789abcdef''"
  using hexdigit_cases [of d] by (auto simp: hexdigit_def)

lemma to_hex_digits: "set (to_hex n) \<subseteq> set ''0123456789abcdef''"
proof (induction n rule: to_hex.induct)
  case (1 n)
  show ?case
  proof (cases "n < 16")
    case True
    then show ?thesis
      using hexdigit_in_digits [of n] by (subst to_hex.simps) simp
  next
    case False
    have "hexdigit (n mod 16) \<in> set ''0123456789abcdef''"
      by (rule hexdigit_in_digits) simp
    with False 1 show ?thesis
      by (subst to_hex.simps) simp
  qed
qed

lemma from_hex_snoc: "from_hex (s @ [c]) = 16 * from_hex s + hexval c"
  by (simp add: from_hex_def)

lemma from_hex_to_hex: "from_hex (to_hex n) = n"
proof (induction n rule: to_hex.induct)
  case (1 n)
  show ?case
  proof (cases "n < 16")
    case True
    then show ?thesis
      by (subst to_hex.simps) (simp add: from_hex_def hexval_hexdigit)
  next
    case False
    have "from_hex (to_hex n) = 16 * from_hex (to_hex (n div 16)) + hexval (hexdigit (n mod 16))"
      using False by (subst to_hex.simps) (simp add: from_hex_snoc)
    also have "\<dots> = 16 * (n div 16) + n mod 16"
      using 1 False by (simp add: hexval_hexdigit)
    finally show ?thesis by simp
  qed
qed

lemma from_hex_zeros: "from_hex (replicate k (CHR ''0'') @ s) = from_hex s"
proof -
  have z: "foldl (\<lambda>acc c. 16 * acc + hexval c) 0 (replicate k (CHR ''0'')) = 0"
    by (induction k) (simp_all add: hexval_def)
  show ?thesis by (simp add: from_hex_def z)
qed

lemma to_hex_not_Nil: "to_hex n \<noteq> []"
  by (subst to_hex.simps) simp

lemma to_hex_length: "1 \<le> k \<Longrightarrow> length (to_hex n) \<le> k \<longleftrightarrow> n < 16 ^ k"
proof (induction n arbitrary: k rule: to_hex.induct)
  case (1 n)
  show ?case
  proof (cases "n < 16")
    case True
    have "(16 :: nat) ^ 1 \<le> 16 ^ k"
      using 1(2) by (intro power_increasing) simp_all
    with True have "n < 16 ^ k" by simp
    with True 1(2) show ?thesis by (subst to_hex.simps) simp
  next
    case False
    have len: "length (to_hex n) = Suc (length (to_hex (n div 16)))"
      using False by (subst to_hex.simps) simp
    show ?thesis
    proof (cases "k = 1")
      case True
      with False len to_hex_not_Nil [of "n div 16"] show ?thesis by simp
    next
      case k: False
      with 1(2) obtain j where j: "k = Suc j" "1 \<le> j" by (cases k) auto
      have "length (to_hex (n div 16)) \<le> j \<longleftrightarrow> n div 16 < 16 ^ j"
        using 1(1) [OF False j(2)] .
      also have "\<dots> \<longleftrightarrow> n < 16 ^ k"
        using j by (simp add: div_less_iff_less_mult mult.commute)
      finally show ?thesis using len j by simp
    qed
  qed
qed

lemma Sprintf_0x016x_digits:
  "\<exists>digits. Sprintf_0x016x tid = ''0x'' @ digits \<and> set digits \<subseteq> set ''0123456789abcdef'' \<and>
            from_hex digits = tid \<and> 16 \<le> length digits \<and>
            (length digits = 16 \<longleftrightarrow> tid < 2 ^ 64)"
proof -
  let ?d = "replicate (16 - length (to_hex tid)) (CHR ''0'') @ to_hex tid"
  have a: "Sprintf_0x016x tid = ''0x'' @ ?d" by (simp add: Sprintf_0x016x_def)
  have b: "set ?d \<subseteq> set ''0123456789abcdef''"
    using to_hex_digits [of tid] by auto
  have c: "from_hex ?d = tid" by (simp add: from_hex_zeros from_hex_to_hex)
  have d: "16 \<le> length ?d" by simp
  have "length ?d = 16 \<longleftrightarrow> length (to_hex tid) \<le> 16" by auto
  also have "\<dots> \<longleftrightarrow> tid < 16 ^ 16" by (rule to_hex_length) simp
  also have "(16 :: nat) ^ 16 = 2 ^ 64" by simp
  finally have e: "length ?d = 16 \<longleftrightarrow> tid < 2 ^ 64" .
  from a b c d e show ?thesis by blast
qed

lemma Sprintf_0x016x_inj: "Sprintf_0x016x t1 = Sprintf_0x016x t2 \<Longrightarrow> t1 = t2"
proof -
  assume eq: "Sprintf_0x016x t1 = Sprintf_0x016x t2"
  have f: "from_hex (drop 2 (Sprintf_0x016x t)) = t" for t
    by (simp add: Sprintf_0x016x_def from_hex_zeros from_hex_to_hex)
  have "t1 = from_hex (drop 2 (Sprintf_0x016x t1))" by (simp only: f)
  also have "\<dots> = from_hex (drop 2 (Sprintf_0x016x t2))" by (simp only: eq)
  also have "\<dots> = t2" by (simp only: f)
  finally show ?thesis .
qed

lemma to_hex_small: "n < 16 \<Longrightarrow> to_hex n = [hexdigit n]"
  by (subst to_hex.simps) simp

lemma to_hex_step: "16 \<le> n \<Longrightarrow> to_hex n = to_hex (n div 16) @ [hexdigit (n mod 16)]"
  by (subst to_hex.simps) simp

lemma to_hex_2_64: "to_hex 18446744073709551616 = ''10000000000000000''"
  by (simp add: to_hex_small to_hex_step hexdigit_def)

lemma checkCreateColTypes_Inr:
  "checkCreateColTypes n a = Inr cols \<Longrightarrow> \<exists>rel elts ofTypename. n = N_CreateStmt rel elts ofTypename"
  by (cases n) simp_all

lemma GetRawQueryForTableID_create:
  "cNode cs = N_CreateStmt rel elts ofTypename \<Longrightarrow>
   GetRawQueryForTableID Deparse cs tid
     = (case Deparse (N_CreateStmt (RangeVar (''t'' @ Sprintf_0x016x tid)) elts ofTypename) of
          Inl e \<Rightarrow> Inl (Errorf_s ''deparsing statement'' e)
        | Inr wq \<Rightarrow> Inr wq,
        cs\<lparr>cNode := N_CreateStmt (RangeVar (''t'' @ Sprintf_0x016x tid)) elts ofTypename\<rparr>)"
  by (simp split: sum.splits)

lemma bind_all_shape:
  "cNode cs = N_CreateStmt rel elts ofTypename \<Longrightarrow>
   \<exists>rel'. bind_all Deparse cs tids = cs\<lparr>cNode := N_CreateStmt rel' elts ofTypename\<rparr>"
proof (induction tids arbitrary: cs rel)
  case Nil
  then have "bind_all Deparse cs [] = cs\<lparr>cNode := N_CreateStmt rel elts ofTypename\<rparr>"
    by (simp add: bind_all_def)
  then show ?case by blast
next
  case (Cons tid tids)
  let ?cs1 = "cs\<lparr>cNode := N_CreateStmt (RangeVar (''t'' @ Sprintf_0x016x tid)) elts ofTypename\<rparr>"
  have s: "snd (GetRawQueryForTableID Deparse cs tid) = ?cs1"
    by (simp only: GetRawQueryForTableID_create [OF Cons.prems] snd_conv)
  have c1: "cNode ?cs1 = N_CreateStmt (RangeVar (''t'' @ Sprintf_0x016x tid)) elts ofTypename"
    by simp
  from Cons.IH [OF c1] obtain rel' where
    "bind_all Deparse ?cs1 tids = ?cs1\<lparr>cNode := N_CreateStmt rel' elts ofTypename\<rparr>"
    by blast
  then have "bind_all Deparse cs (tid # tids) = cs\<lparr>cNode := N_CreateStmt rel' elts ofTypename\<rparr>"
    using s by (simp add: bind_all_def)
  then show ?case by blast
qed

text \<open>
  Claim C7, amended. For a CREATE TABLE statement the validator accepted: binding it to a
  table id, after any earlier binds, deparses the stored tree with nothing changed but
  the relation name, which is \<open>t\<close> followed by \<open>Sprintf_0x016x\<close> of the id; so binding twice
  to the same id gives the same SQL, and binding to two ids gives the deparsed text of
  two trees that differ in the relation name only, and do differ there. The structure
  hash is the same after any sequence of binds. The relation name is \<open>t0x\<close> and the id in
  lowercase hexadecimal, padded with zeros to at least 16 digits: exactly 16 digits when
  the id is below \<open>2^64\<close>, more otherwise.
\<close>

theorem C7_bind:
  "ValidateCreateTable pp parsed = Inr cs \<Longrightarrow>
   (\<exists>rel elts ofTypename.
      cNode cs = N_CreateStmt rel elts ofTypename \<and>
      (\<forall>tids tid.
         GetRawQueryForTableID Deparse (bind_all Deparse cs tids) tid
           = (case Deparse (N_CreateStmt (RangeVar (''t'' @ Sprintf_0x016x tid)) elts ofTypename) of
                Inl e \<Rightarrow> Inl (Errorf_s ''deparsing statement'' e)
              | Inr wq \<Rightarrow> Inr wq,
              cs\<lparr>cNode := N_CreateStmt (RangeVar (''t'' @ Sprintf_0x016x tid)) elts ofTypename\<rparr>))) \<and>
   (\<forall>tid. fst (GetRawQueryForTableID Deparse (snd (GetRawQueryForTableID Deparse cs tid)) tid)
            = fst (GetRawQueryForTableID Deparse cs tid)) \<and>
   (\<forall>tids. structureHash (bind_all Deparse cs tids) = structureHash cs) \<and>
   (\<forall>t1 t2. t1 \<noteq> t2 \<longrightarrow> Sprintf_0x016x t1 \<noteq> Sprintf_0x016x t2) \<and>
   (\<forall>tid. \<exists>digits.
      Sprintf_0x016x tid = ''0x'' @ digits \<and> set digits \<subseteq> set ''0123456789abcdef'' \<and>
      from_hex digits = tid \<and> 16 \<le> length digits \<and> (length digits = 16 \<longleftrightarrow> tid < 2 ^ 64))"
proof -
  assume v: "ValidateCreateTable pp parsed = Inr cs"
  from ValidateCreateTable_Inr [OF v] obtain cols where
    "checkCreateColTypes (cNode cs) (acceptedTypesNames pp) = Inr cols" by blast
  from checkCreateColTypes_Inr [OF this] obtain rel elts ofTypename where
    c: "cNode cs = N_CreateStmt rel elts ofTypename" by blast
  have shape: "\<exists>rel'. bind_all Deparse cs tids = cs\<lparr>cNode := N_CreateStmt rel' elts ofTypename\<rparr>"
    for tids by (rule bind_all_shape [OF c])
  have bound: "GetRawQueryForTableID Deparse (bind_all Deparse cs tids) tid
           = (case Deparse (N_CreateStmt (RangeVar (''t'' @ Sprintf_0x016x tid)) elts ofTypename) of
                Inl e \<Rightarrow> Inl (Errorf_s ''deparsing statement'' e)
              | Inr wq \<Rightarrow> Inr wq,
              cs\<lparr>cNode := N_CreateStmt (RangeVar (''t'' @ Sprintf_0x016x tid)) elts ofTypename\<rparr>)"
    for tids tid
  proof -
    from shape [of tids] obtain rel' where
      b: "bind_all Deparse cs tids = cs\<lparr>cNode := N_CreateStmt rel' elts ofTypename\<rparr>" by blast
    have "cNode (cs\<lparr>cNode := N_CreateStmt rel' elts ofTypename\<rparr>) = N_CreateStmt rel' elts ofTypename"
      by simp
    from GetRawQueryForTableID_create [OF this, of Deparse tid] show ?thesis
      unfolding b by simp
  qed
  have twice: "fst (GetRawQueryForTableID Deparse (snd (GetRawQueryForTableID Deparse cs tid)) tid)
                 = fst (GetRawQueryForTableID Deparse cs tid)" for tid
    using bound [of "[tid]" tid] bound [of "[]" tid] by (simp add: bind_all_def)
  have hash: "structureHash (bind_all Deparse cs tids) = structureHash cs" for tids
    using shape [of tids] by auto
  have inj: "t1 \<noteq> t2 \<longrightarrow> Sprintf_0x016x t1 \<noteq> Sprintf_0x016x t2" for t1 t2
    using Sprintf_0x016x_inj [of t1 t2] by blast
  from c bound twice hash inj Sprintf_0x016x_digits show ?thesis by blast
qed

lemma replicate_15_zeros: "replicate 15 (CHR ''0'') = ''000000000000000''"
  by code_simp

lemma Sprintf_0x016x_5: "Sprintf_0x016x 5 = ''0x0000000000000005''"
  by (simp add: Sprintf_0x016x_def to_hex_small hexdigit_def replicate_15_zeros)

text \<open>
  Claim C7, as stated: the bound relation name is always \<open>t0x\<close> followed by the id as 16
  hexadecimal digits. A table id is an unbounded integer and \<open>%016x\<close> is a minimum width:
  the id \<open>2^64\<close> is bound to a name of 17 digits.
\<close>

theorem C7_bind_counterexample:
  "ValidateCreateTable sample_validator (Inr [create_foo])
     = Inr \<lparr>cNode = create_foo,
            structureHash = hex_EncodeToString (sha256_Sum (str_bytes ''a:int4,b:text'')),
            namePrefix = ''foo''\<rparr> \<and>
   GetRawQueryForTableID sample_Deparse_create
     \<lparr>cNode = create_foo,
      structureHash = hex_EncodeToString (sha256_Sum (str_bytes ''a:int4,b:text'')),
      namePrefix = ''foo''\<rparr> 18446744073709551616
     = (Inr ''CREATE TABLE t0x10000000000000000 (a int, b text)'',
        \<lparr>cNode = N_CreateStmt (RangeVar ''t0x10000000000000000'')
                   [N_ColumnDef ''a'' (Some [N_String ''pg_catalog'', N_String ''int4'']) [],
                    N_ColumnDef ''b'' (Some [N_String ''text'']) []] None,
         structureHash = hex_EncodeToString (sha256_Sum (str_bytes ''a:int4,b:text'')),
         namePrefix = ''foo''\<rparr>) \<and>
   length ''10000000000000000'' = 17"
  by (intro conjI, rule sample_ValidateCreateTable(1))
     (simp_all add: create_foo_def sample_Deparse_create_def Sprintf_0x016x_def to_hex_2_64)

theorem C7_bind_witness:
  "ValidateCreateTable sample_validator (Inr [create_foo])
     = Inr \<lparr>cNode = create_foo,
            structureHash = hex_EncodeToString (sha256_Sum (str_bytes ''a:int4,b:text'')),
            namePrefix = ''foo''\<rparr> \<and>
   GetRawQueryForTableID sample_Deparse_create
     (bind_all sample_Deparse_create
        \<lparr>cNode = create_foo,
         structureHash = hex_EncodeToString (sha256_Sum (str_bytes ''a:int4,b:text'')),
         namePrefix = ''foo''\<rparr> [7, 5, 3]) 5
     = (Inr ''CREATE TABLE t0x0000000000000005 (a int, b text)'',
        \<lparr>cNode = N_CreateStmt (RangeVar ''t0x0000000000000005'')
                   [N_ColumnDef ''a'' (Some [N_String ''pg_catalog'', N_String ''int4'']) [],
                    N_ColumnDef ''b'' (Some [N_String ''text'']) []] None,
         structureHash = hex_EncodeToString (sha256_Sum (str_bytes ''a:int4,b:text'')),
         namePrefix = ''foo''\<rparr>) \<and>
   structureHash (bind_all sample_Deparse_create
        \<lparr>cNode = create_foo,
         structureHash = hex_EncodeToString (sha256_Sum (str_bytes ''a:int4,b:text'')),
         namePrefix = ''foo''\<rparr> [7, 5, 3])
     = hex_EncodeToString (sha256_Sum (str_bytes ''a:int4,b:text'')) \<and>
   Sprintf_0x016x 5 \<noteq> Sprintf_0x016x 2"
proof -
  let ?cs = "\<lparr>cNode = create_foo,
         structureHash = hex_EncodeToString (sha256_Sum (str_bytes ''a:int4,b:text'')),
         namePrefix = ''foo''\<rparr>"
  note t = C7_bind [OF sample_ValidateCreateTable(1), of sample_Deparse_create]
  from t obtain rel elts ofTypename where
    c: "cNode ?cs = N_CreateStmt rel elts ofTypename"
    and b: "GetRawQueryForTableID sample_Deparse_create (bind_all sample_Deparse_create ?cs [7, 5, 3]) 5
           = (case sample_Deparse_create (N_CreateStmt (RangeVar (''t'' @ Sprintf_0x016x 5)) elts ofTypename) of
                Inl e \<Rightarrow> Inl (Errorf_s ''deparsing statement'' e)
              | Inr wq \<Rightarrow> Inr wq,
              ?cs\<lparr>cNode := N_CreateStmt (RangeVar (''t'' @ Sprintf_0x016x 5)) elts ofTypename\<rparr>)"
    by blast
  from t have h: "structureHash (bind_all sample_Deparse_create ?cs [7, 5, 3]) = structureHash ?cs"
    by blast
  from t have "(5 :: nat) \<noteq> 2 \<longrightarrow> Sprintf_0x016x 5 \<noteq> Sprintf_0x016x 2"
    by blast
  then have n: "Sprintf_0x016x 5 \<noteq> Sprintf_0x016x 2" by simp
  from c have e: "elts = [N_ColumnDef ''a'' (Some [N_String ''pg_catalog'', N_String ''int4'']) [],
                    N_ColumnDef ''b'' (Some [N_String ''text'']) []]" and o: "ofTypename = None"
    by (simp_all add: create_foo_def)
  show ?thesis
    using b h n sample_ValidateCreateTable(1)
    by (simp add: e o sample_Deparse_create_def Sprintf_0x016x_5)
qed

section \<open>Properties of the transaction processor\<close>

text \<open>
  Claim C10. Constructing a transaction processor with a negative \<open>maxTableRowCount\<close>
  fails with an error and returns no processor, for every negative value and whatever
  the connection attempt gave; with \<open>maxTableRowCount \<ge> 0\<close> and a connection the call
  passes the check and returns the processor, its channel holding the one token.
\<close>

theorem C10_NewTxnProcessor_maxTableRowCount:
  "(sint maxRowCount < 0 \<longrightarrow> (\<exists>err. NewTxnProcessor connect maxRowCount = Inl err)) \<and>
   (0 \<le> sint maxRowCount \<longrightarrow>
      NewTxnProcessor (Inr p) maxRowCount =
        Inr \<lparr>pool = p, chBatch = 1, maxTableRowCount = maxRowCount\<rparr>)"
  by (cases connect) (simp_all add: NewTxnProcessor_def word_sless_alt)

theorem C10_NewTxnProcessor_maxTableRowCount_witness:
  "NewTxnProcessor (Inr ()) (- 1) = Inl (ErrorNew ''maximum table row count is negative'') \<and>
   NewTxnProcessor (Inl (ErrorNew ''connection refused'')) (- 1)
     = Inl (Errorf_s ''connecting to postgres'' (ErrorNew ''connection refused'')) \<and>
   NewTxnProcessor (Inr ()) 500000 = Inr \<lparr>pool = (), chBatch = 1, maxTableRowCount = 500000\<rparr> \<and>
   NewTxnProcessor (Inr ()) 0 = Inr \<lparr>pool = (), chBatch = 1, maxTableRowCount = 0\<rparr>"
  using C10_NewTxnProcessor_maxTableRowCount [of "- 1" "Inr ()" "()"]
        C10_NewTxnProcessor_maxTableRowCount [of 500000 "Inr ()" "()"]
        C10_NewTxnProcessor_maxTableRowCount [of 0 "Inr ()" "()"]
  by (simp add: NewTxnProcessor_def)

subsection \<open>Closing the processor\<close>

text \<open>
  The channel of a processor never holds more than its one token; \<open>Close\<close> of the
  processor takes it; no call but \<open>Close\<close> of a batch puts one into the empty channel.
\<close>

lemma NewTxnProcessor_chBatch:
  "NewTxnProcessor connect maxRowCount = Inr tp \<Longrightarrow> chBatch tp = 1"
  by (auto simp: NewTxnProcessor_def split: sum.splits if_splits)

lemma after_call_capacity:
  "after_call tp c = Some tp' \<Longrightarrow> chBatch tp \<le> 1 \<Longrightarrow> chBatch tp' \<le> 1"
  by (cases c)
     (auto simp: OpenBatch_def batch_Close_def Close_def chan_recv_def chan_send_def Let_def
           split: option.splits sum.splits if_splits blocking.splits)

lemma after_calls_capacity:
  "after_calls tp cs = Some tp' \<Longrightarrow> chBatch tp \<le> 1 \<Longrightarrow> chBatch tp' \<le> 1"
proof (induction cs arbitrary: tp)
  case Nil
  then show ?case by simp
next
  case (Cons c cs)
  from Cons.prems(1) obtain tp1 where s: "after_call tp c = Some tp1" "after_calls tp1 cs = Some tp'"
    by (auto split: option.splits)
  from Cons.IH [OF s(2) after_call_capacity [OF s(1) Cons.prems(2)]] show ?case .
qed

lemma Close_takes_the_token:
  "Close tp ctxDone pickCtx = Returns (None, tp') \<Longrightarrow> chBatch tp \<le> 1 \<Longrightarrow> chBatch tp' = 0"
  by (auto simp: Close_def chan_recv_def split: option.splits if_splits)

lemma after_call_stays_empty:
  "after_call tp c = Some tp' \<Longrightarrow> chBatch tp = 0 \<Longrightarrow> \<not> is_batch_Close c \<Longrightarrow> chBatch tp' = 0"
  by (cases c)
     (auto simp: OpenBatch_def Close_def chan_recv_def
           split: option.splits sum.splits if_splits blocking.splits)

lemma after_calls_stays_empty:
  "after_calls tp cs = Some tp' \<Longrightarrow> chBatch tp = 0 \<Longrightarrow> \<forall>c\<in>set cs. \<not> is_batch_Close c \<Longrightarrow>
     chBatch tp' = 0"
proof (induction cs arbitrary: tp)
  case Nil
  then show ?case by simp
next
  case (Cons c cs)
  from Cons.prems(1) obtain tp1 where s: "after_call tp c = Some tp1" "after_calls tp1 cs = Some tp'"
    by (auto split: option.splits)
  from Cons.prems(3) have n: "\<not> is_batch_Close c" "\<forall>c\<in>set cs. \<not> is_batch_Close c" by simp_all
  from Cons.IH [OF s(2) after_call_stays_empty [OF s(1) Cons.prems(2) n(1)] n(2)] show ?case .
qed

lemma OpenBatch_Blocks_iff:
  "chBatch tp \<le> 1 \<Longrightarrow> OpenBatch tp beginTx = Blocks \<longleftrightarrow> chBatch tp = 0"
  by (auto simp: OpenBatch_def chan_recv_def chan_send_def split: option.splits sum.splits)

lemma OpenBatch_error:
  "OpenBatch tp beginTx = Returns (Inl e, tp2) \<Longrightarrow>
     \<exists>err. beginTx = Inl err \<and> e = Errorf_s ''opening postgres transaction'' err"
  by (auto simp: OpenBatch_def split: option.splits sum.splits)

lemma OpenBatch_batch:
  "chBatch tp = 1 \<Longrightarrow> OpenBatch tp (Inr t) = Returns (Inr \<lparr>txn = t\<rparr>, tp\<lparr>chBatch := 0\<rparr>)"
  by (simp add: OpenBatch_def chan_recv_def)

text \<open>
  Claim C9, as stated: after \<open>Close\<close> of the processor has returned success, every
  subsequent \<open>OpenBatch\<close> returns an error rather than a batch. It does not. \<open>Close\<close>
  takes the token and keeps it, and \<open>OpenBatch\<close> starts with a receive from the channel,
  so on a new processor that was closed \<open>OpenBatch\<close> blocks, whether the store would open
  a transaction or not: it returns nothing, hence no error. And a later \<open>OpenBatch\<close> may
  return a batch: \<open>Close\<close> of a batch sends a token on every call, so after \<open>OpenBatch\<close>,
  \<open>Close\<close> of the batch, \<open>Close\<close> of the processor (success) and a second \<open>Close\<close> of
  the same batch (\<open>Rollback\<close> gives \<open>pgx.ErrTxClosed\<close>, which is passed over) the channel
  holds a token again and \<open>OpenBatch\<close> hands out a batch.
\<close>

theorem C9_OpenBatch_after_Close_counterexample:
  "NewTxnProcessor (Inr ()) 0 = Inr \<lparr>pool = (), chBatch = 1, maxTableRowCount = 0\<rparr> \<and>
   Close \<lparr>pool = (), chBatch = 1, maxTableRowCount = 0\<rparr> False False
     = Returns (None, \<lparr>pool = (), chBatch = 0, maxTableRowCount = 0\<rparr>) \<and>
   OpenBatch \<lparr>pool = (), chBatch = 0, maxTableRowCount = 0\<rparr> (Inr ()) = Blocks \<and>
   OpenBatch \<lparr>pool = (), chBatch = 0, maxTableRowCount = 0\<rparr>
     (Inl (ErrorNew ''conn closed'') :: error + unit) = Blocks \<and>
   OpenBatch \<lparr>pool = (), chBatch = 1, maxTableRowCount = 0\<rparr> (Inr ())
     = Returns (Inr \<lparr>txn = ()\<rparr>, \<lparr>pool = (), chBatch = 0, maxTableRowCount = 0\<rparr>) \<and>
   batch_Close \<lparr>pool = (), chBatch = 0, maxTableRowCount = 0\<rparr> None
     = Returns (None, \<lparr>pool = (), chBatch = 1, maxTableRowCount = 0\<rparr>) \<and>
   batch_Close \<lparr>pool = (), chBatch = 0, maxTableRowCount = 0\<rparr> (Some ErrTxClosed)
     = Returns (None, \<lparr>pool = (), chBatch = 1, maxTableRowCount = 0\<rparr>)"
  by (simp add: NewTxnProcessor_def Close_def OpenBatch_def batch_Close_def chan_recv_def
        chan_send_def)

text \<open>
  Claim C9, amended. On a processor made by \<open>NewTxnProcessor\<close>, after any calls that
  returned, let \<open>Close\<close> return success, and let any further calls return after it. Then
  every \<open>OpenBatch\<close> that follows returns no error on account of the close (it returns
  an error only when \<open>BeginTx\<close> fails, and then that error's text under
  \<open>opening postgres transaction\<close>); it blocks exactly when the channel is empty, which
  is the case as long as no \<open>Close\<close> of a batch has returned since the close of the
  processor; and once the channel holds a token again, which only a \<open>Close\<close> of a batch
  brings about, it hands out a batch when \<open>BeginTx\<close> succeeds.
\<close>

theorem C9_OpenBatch_after_Close:
  "NewTxnProcessor connect maxRowCount = Inr tpN \<Longrightarrow> after_calls tpN earlier = Some tp \<Longrightarrow>
   Close tp ctxDone pickCtx = Returns (None, tp0) \<Longrightarrow> after_calls tp0 later = Some tp1 \<Longrightarrow>
     (\<forall>e tp2. OpenBatch tp1 beginTx = Returns (Inl e, tp2) \<longrightarrow>
        (\<exists>err. beginTx = Inl err \<and> e = Errorf_s ''opening postgres transaction'' err)) \<and>
     (OpenBatch tp1 beginTx = Blocks \<longleftrightarrow> chBatch tp1 = 0) \<and>
     ((\<forall>c\<in>set later. \<not> is_batch_Close c) \<longrightarrow> OpenBatch tp1 beginTx = Blocks) \<and>
     (chBatch tp1 \<noteq> 0 \<longrightarrow>
        (\<exists>c\<in>set later. is_batch_Close c) \<and>
        OpenBatch tp1 (Inr t) = Returns (Inr \<lparr>txn = t\<rparr>, tp1\<lparr>chBatch := 0\<rparr>))"
proof -
  assume n: "NewTxnProcessor connect maxRowCount = Inr tpN"
    and e: "after_calls tpN earlier = Some tp"
    and c: "Close tp ctxDone pickCtx = Returns (None, tp0)"
    and l: "after_calls tp0 later = Some tp1"
  from NewTxnProcessor_chBatch [OF n] have "chBatch tpN \<le> 1" by simp
  from after_calls_capacity [OF e this] have tp: "chBatch tp \<le> 1" .
  from Close_takes_the_token [OF c tp] have tp0: "chBatch tp0 = 0" .
  then have "chBatch tp0 \<le> 1" by simp
  from after_calls_capacity [OF l this] have tp1: "chBatch tp1 \<le> 1" .
  note b = OpenBatch_Blocks_iff [OF tp1]
  have empty: "(\<forall>c\<in>set later. \<not> is_batch_Close c) \<longrightarrow> chBatch tp1 = 0"
    using after_calls_stays_empty [OF l tp0] by blast
  have one: "chBatch tp1 \<noteq> 0 \<longrightarrow> chBatch tp1 = 1" using tp1 by arith
  show ?thesis
  proof (intro conjI allI impI)
    fix e tp2 assume "OpenBatch tp1 beginTx = Returns (Inl e, tp2)"
    from OpenBatch_error [OF this]
    show "\<exists>err. beginTx = Inl err \<and> e = Errorf_s ''opening postgres transaction'' err" .
  next
    show "OpenBatch tp1 beginTx = Blocks \<longleftrightarrow> chBatch tp1 = 0" by (rule b)
  next
    assume "\<forall>c\<in>set later. \<not> is_batch_Close c"
    with empty b show "OpenBatch tp1 beginTx = Blocks" by simp
  next
    assume "chBatch tp1 \<noteq> 0"
    with empty show "\<exists>c\<in>set later. is_batch_Close c" by blast
  next
    assume "chBatch tp1 \<noteq> 0"
    with one have "chBatch tp1 = 1" by simp
    from OpenBatch_batch [OF this]
    show "OpenBatch tp1 (Inr t) = Returns (Inr \<lparr>txn = t\<rparr>, tp1\<lparr>chBatch := 0\<rparr>)" .
  qed
qed

theorem C9_OpenBatch_after_Close_witness:
  "NewTxnProcessor (Inr ()) 10 = Inr \<lparr>pool = (), chBatch = 1, maxTableRowCount = 10\<rparr> \<and>
   after_calls \<lparr>pool = (), chBatch = 1, maxTableRowCount = 10\<rparr>
       [Call_OpenBatch (Inr (0 :: nat)), Call_batch_Close None]
     = Some \<lparr>pool = (), chBatch = 1, maxTableRowCount = 10\<rparr> \<and>
   Close \<lparr>pool = (), chBatch = 1, maxTableRowCount = 10\<rparr> True False
     = Returns (None, \<lparr>pool = (), chBatch = 0, maxTableRowCount = 10\<rparr>) \<and>
   after_calls \<lparr>pool = (), chBatch = 0, maxTableRowCount = 10\<rparr>
       [Call_Close True True :: nat call]
     = Some \<lparr>pool = (), chBatch = 0, maxTableRowCount = 10\<rparr> \<and>
   OpenBatch \<lparr>pool = (), chBatch = 0, maxTableRowCount = 10\<rparr> (Inr (0 :: nat)) = Blocks \<and>
   after_calls \<lparr>pool = (), chBatch = 0, maxTableRowCount = 10\<rparr>
       [Call_batch_Close (Some ErrTxClosed) :: nat call]
     = Some \<lparr>pool = (), chBatch = 1, maxTableRowCount = 10\<rparr> \<and>
   OpenBatch \<lparr>pool = (), chBatch = 1, maxTableRowCount = 10\<rparr> (Inr (0 :: nat))
     = Returns (Inr \<lparr>txn = 0\<rparr>, \<lparr>pool = (), chBatch = 0, maxTableRowCount = 10\<rparr>)"
proof -
  have n: "NewTxnProcessor (Inr ()) 10 = Inr \<lparr>pool = (), chBatch = 1, maxTableRowCount = 10\<rparr>"
    by (simp add: NewTxnProcessor_def word_sless_alt)
  have e: "after_calls \<lparr>pool = (), chBatch = 1, maxTableRowCount = 10\<rparr>
             [Call_OpenBatch (Inr (0 :: nat)), Call_batch_Close None]
           = Some \<lparr>pool = (), chBatch = 1, maxTableRowCount = 10\<rparr>"
    by (simp add: OpenBatch_def batch_Close_def chan_recv_def chan_send_def)
  have c: "Close \<lparr>pool = (), chBatch = 1, maxTableRowCount = 10\<rparr> True False
             = Returns (None, \<lparr>pool = (), chBatch = 0, maxTableRowCount = 10\<rparr>)"
    by (simp add: Close_def chan_recv_def)
  have l1: "after_calls \<lparr>pool = (), chBatch = 0, maxTableRowCount = 10\<rparr>
              [Call_Close True True :: nat call]
            = Some \<lparr>pool = (), chBatch = 0, maxTableRowCount = 10\<rparr>"
    by (simp add: Close_def chan_recv_def)
  have l2: "after_calls \<lparr>pool = (), chBatch = 0, maxTableRowCount = 10\<rparr>
              [Call_batch_Close (Some ErrTxClosed) :: nat call]
            = Some \<lparr>pool = (), chBatch = 1, maxTableRowCount = 10\<rparr>"
    by (simp add: batch_Close_def chan_send_def)
  from C9_OpenBatch_after_Close [OF n e c l1, of "Inr (0 :: nat)" "0 :: nat"]
  have b1: "OpenBatch \<lparr>pool = (), chBatch = 0, maxTableRowCount = 10\<rparr> (Inr (0 :: nat)) = Blocks"
    by simp
  from C9_OpenBatch_after_Close [OF n e c l2, of "Inr (0 :: nat)" "0 :: nat"]
  have b2: "OpenBatch \<lparr>pool = (), chBatch = 1, maxTableRowCount = 10\<rparr> (Inr (0 :: nat))
              = Returns (Inr \<lparr>txn = 0\<rparr>, \<lparr>pool = (), chBatch = 0, maxTableRowCount = 10\<rparr>)"
    by simp
  show ?thesis
    by (intro conjI n e c l1 b1 l2 b2)
qed


subsection \<open>Registering a table\<close>

text \<open>The ways through the closure of \<open>InsertTable\<close>: one per failing step, and the success.\<close>

lemma InsertTable_f_cases:
  "InsertTable_f d Deparse tid controller description tx cs = (r, cs') \<Longrightarrow>
   (\<exists>e. NumericSet d tid = Inl e \<and> cs' = cs \<and>
        r = Inl (Errorf_s ''parsing table id to numeric'' e)) \<or>
   (\<exists>dbID e. NumericSet d tid = Inr dbID \<and>
        Exec d tx (InsertRegistry dbID controller (namePrefix cs) (structureHash cs) description)
          = Inl e \<and> cs' = cs \<and>
        r = Inl (Errorf_s ''inserting new table in system-wide registry'' e)) \<or>
   (\<exists>dbID tx1 tag1 e. NumericSet d tid = Inr dbID \<and>
        Exec d tx (InsertRegistry dbID controller (namePrefix cs) (structureHash cs) description)
          = Inr (tx1, tag1) \<and>
        Exec d tx1 (InsertSystemACL dbID controller [''a'', ''w'', ''d'']) = Inl e \<and> cs' = cs \<and>
        r = Inl (Errorf_s ''inserting new entry into system acl'' e)) \<or>
   (\<exists>dbID tx1 tag1 tx2 tag2 e. NumericSet d tid = Inr dbID \<and>
        Exec d tx (InsertRegistry dbID controller (namePrefix cs) (structureHash cs) description)
          = Inr (tx1, tag1) \<and>
        Exec d tx1 (InsertSystemACL dbID controller [''a'', ''w'', ''d'']) = Inr (tx2, tag2) \<and>
        GetRawQueryForTableID Deparse cs tid = (Inl e, cs') \<and>
        r = Inl (Errorf_s ''get query for table id'' e)) \<or>
   (\<exists>dbID tx1 tag1 tx2 tag2 query e. NumericSet d tid = Inr dbID \<and>
        Exec d tx (InsertRegistry dbID controller (namePrefix cs) (structureHash cs) description)
          = Inr (tx1, tag1) \<and>
        Exec d tx1 (InsertSystemACL dbID controller [''a'', ''w'', ''d'']) = Inr (tx2, tag2) \<and>
        GetRawQueryForTableID Deparse cs tid = (Inr query, cs') \<and>
        Exec d tx2 (Query query) = Inl e \<and>
        r = Inl (Errorf_s ''exec CREATE statement'' e)) \<or>
   (\<exists>dbID tx1 tag1 tx2 tag2 query tx3 tag3. NumericSet d tid = Inr dbID \<and>
        Exec d tx (InsertRegistry dbID controller (namePrefix cs) (structureHash cs) description)
          = Inr (tx1, tag1) \<and>
        Exec d tx1 (InsertSystemACL dbID controller [''a'', ''w'', ''d'']) = Inr (tx2, tag2) \<and>
        GetRawQueryForTableID Deparse cs tid = (Inr query, cs') \<and>
        Exec d tx2 (Query query) = Inr (tx3, tag3) \<and>
        r = Inr tx3)"
  unfolding InsertTable_f_def GetNamePrefix_def GetStructureHash_def
  by (auto split: sum.splits prod.splits simp del: GetRawQueryForTableID.simps)

text \<open>
  An error made with \<open>%s\<close> twice over is a new value, never the error whose text it
  holds.
\<close>

lemma Errorf_s_twice_neq: "Errorf_s ctx1 (Errorf_s ctx2 u) \<noteq> u"
proof
  assume "Errorf_s ctx1 (Errorf_s ctx2 u) = u"
  from arg_cong [OF this, of size] show False by simp
qed

lemma to_dec_5: "to_dec 5 = ''5''"
  by (subst to_dec.simps) (simp add: hexdigit_def)

lemma to_dec_2: "to_dec 2 = ''2''"
  by (subst to_dec.simps) (simp add: hexdigit_def)

lemma sample_InsertTable_ok:
  "InsertTable mem_deps sample_Deparse_create \<lparr>txn = empty_store\<rparr> 5 ''0xabc'' ''a table''
     accepted_create_foo
   = (None,
      \<lparr>txn = \<lparr>mem_registry =
                 [(''5'', ''0xabc'', ''foo'',
                   hex_EncodeToString (sha256_Sum (str_bytes ''a:int4,b:text'')), ''a table'')],
               mem_system_acl = [(''5'', ''0xabc'', [''a'', ''w'', ''d''])],
               mem_created = [''CREATE TABLE t0x0000000000000005 (a int, b text)''],
               mem_rows = 0\<rparr>\<rparr>,
      accepted_create_foo
        \<lparr>cNode := N_CreateStmt (RangeVar ''t0x0000000000000005'')
                    [N_ColumnDef ''a'' (Some [N_String ''pg_catalog'', N_String ''int4'']) [],
                     N_ColumnDef ''b'' (Some [N_String ''text'']) []] None\<rparr>)"
  by (simp add: InsertTable_def BeginFunc_def InsertTable_f_def mem_deps_def mem_Exec_def
        to_dec_5 Sprintf_0x016x_5 empty_store_def accepted_create_foo_def create_foo_def
        GetNamePrefix_def GetStructureHash_def sample_Deparse_create_def HasPrefix_def)

lemma sample_registry_duplicate:
  "NumericSet mem_deps 2 = Inr ''2'' \<and>
   Exec mem_deps (txn \<lparr>txn = store_9_rows\<rparr>)
     (InsertRegistry ''2'' ''0xabc'' (namePrefix accepted_create_foo)
        (structureHash accepted_create_foo) ''a table'')
     = Inl (ErrorNew ''duplicate key value violates unique constraint'')"
  by (simp add: mem_deps_def mem_Exec_def to_dec_2 store_9_rows_def)

text \<open>
  Claim C8, as stated: on failure of any step the underlying error is returned to the
  caller. It is not. Registering table 2 in a store whose registry holds a row with id 2
  fails at the insert into \<open>registry\<close> with the store's duplicate key error; the batch's
  state stays what it was, but what \<open>InsertTable\<close> returns is a new error made with \<open>%s\<close>
  at the step and again around \<open>BeginFunc\<close>: it holds the text of the store's error, it
  is not that error, and its \<open>%w\<close> chain does not lead to it.
\<close>

theorem C8_InsertTable_counterexample:
  "Exec mem_deps store_9_rows
     (InsertRegistry ''2'' ''0xabc'' ''foo''
        (hex_EncodeToString (sha256_Sum (str_bytes ''a:int4,b:text''))) ''a table'')
     = Inl (ErrorNew ''duplicate key value violates unique constraint'') \<and>
   InsertTable mem_deps sample_Deparse_create \<lparr>txn = store_9_rows\<rparr> 2 ''0xabc'' ''a table''
     accepted_create_foo
   = (Some (Errorf_s ''processing register table''
             (Errorf_s ''inserting new table in system-wide registry''
               (ErrorNew ''duplicate key value violates unique constraint''))),
      \<lparr>txn = store_9_rows\<rparr>, accepted_create_foo) \<and>
   Errorf_s ''processing register table''
     (Errorf_s ''inserting new table in system-wide registry''
       (ErrorNew ''duplicate key value violates unique constraint''))
     \<noteq> ErrorNew ''duplicate key value violates unique constraint'' \<and>
   cause (Errorf_s ''processing register table''
           (Errorf_s ''inserting new table in system-wide registry''
             (ErrorNew ''duplicate key value violates unique constraint'')))
     \<noteq> ErrorNew ''duplicate key value violates unique constraint''"
  by (simp add: InsertTable_def BeginFunc_def InsertTable_f_def mem_deps_def mem_Exec_def
        to_dec_2 store_9_rows_def accepted_create_foo_def GetNamePrefix_def GetStructureHash_def)

text \<open>
  Claim C8, amended. For every call of \<open>InsertTable\<close> with an id, a controller, a
  description and a CREATE statement: when it returns no error, the id's numeric value
  was made, the row (id, controller, name prefix, structure hash, description) was
  inserted into \<open>registry\<close>, then the row (id, controller, [a, w, d]) into \<open>system_acl\<close>
  on the state the first insert left, then the CREATE statement bound to the id was
  executed on the state the second left, and the batch holds the state after the third.
  When a step fails (making the numeric value, the insert into \<open>registry\<close>, the insert
  into \<open>system_acl\<close>, binding the statement to the id, executing it), the steps before
  it having succeeded, the batch's state is what it was before the call, and the caller
  receives a new error that holds the text of the step's error under the step's context
  and \<open>processing register table\<close>: not the step's error itself, and with nothing to
  unwrap.
\<close>

theorem C8_InsertTable:
  "(InsertTable d Deparse b tid controller description cs = (None, b', cs') \<longrightarrow>
      (\<exists>dbID tx1 tag1 tx2 tag2 query tx3 tag3.
         NumericSet d tid = Inr dbID \<and>
         Exec d (txn b) (InsertRegistry dbID controller (namePrefix cs) (structureHash cs) description)
           = Inr (tx1, tag1) \<and>
         Exec d tx1 (InsertSystemACL dbID controller [''a'', ''w'', ''d'']) = Inr (tx2, tag2) \<and>
         GetRawQueryForTableID Deparse cs tid = (Inr query, cs') \<and>
         Exec d tx2 (Query query) = Inr (tx3, tag3) \<and>
         b' = b\<lparr>txn := tx3\<rparr>)) \<and>
   ((step = ''parsing table id to numeric'' \<and> NumericSet d tid = Inl underlying \<and> cs1 = cs) \<or>
    (step = ''inserting new table in system-wide registry'' \<and>
       (\<exists>dbID. NumericSet d tid = Inr dbID \<and>
          Exec d (txn b) (InsertRegistry dbID controller (namePrefix cs) (structureHash cs)
                            description) = Inl underlying) \<and> cs1 = cs) \<or>
    (step = ''inserting new entry into system acl'' \<and>
       (\<exists>dbID tx1 tag1. NumericSet d tid = Inr dbID \<and>
          Exec d (txn b) (InsertRegistry dbID controller (namePrefix cs) (structureHash cs)
                            description) = Inr (tx1, tag1) \<and>
          Exec d tx1 (InsertSystemACL dbID controller [''a'', ''w'', ''d'']) = Inl underlying) \<and>
       cs1 = cs) \<or>
    (step = ''get query for table id'' \<and>
       (\<exists>dbID tx1 tag1 tx2 tag2. NumericSet d tid = Inr dbID \<and>
          Exec d (txn b) (InsertRegistry dbID controller (namePrefix cs) (structureHash cs)
                            description) = Inr (tx1, tag1) \<and>
          Exec d tx1 (InsertSystemACL dbID controller [''a'', ''w'', ''d'']) = Inr (tx2, tag2)) \<and>
       GetRawQueryForTableID Deparse cs tid = (Inl underlying, cs1)) \<or>
    (step = ''exec CREATE statement'' \<and>
       (\<exists>dbID tx1 tag1 tx2 tag2 query. NumericSet d tid = Inr dbID \<and>
          Exec d (txn b) (InsertRegistry dbID controller (namePrefix cs) (structureHash cs)
                            description) = Inr (tx1, tag1) \<and>
          Exec d tx1 (InsertSystemACL dbID controller [''a'', ''w'', ''d'']) = Inr (tx2, tag2) \<and>
          GetRawQueryForTableID Deparse cs tid = (Inr query, cs1) \<and>
          Exec d tx2 (Query query) = Inl underlying)) \<longrightarrow>
      InsertTable d Deparse b tid controller description cs
        = (Some (Errorf_s ''processing register table'' (Errorf_s step underlying)), b, cs1) \<and>
      Errorf_s ''processing register table'' (Errorf_s step underlying) \<noteq> underlying \<and>
      cause (Errorf_s ''processing register table'' (Errorf_s step underlying))
        = Errorf_s ''processing register table'' (Errorf_s step underlying))"
proof (intro conjI impI)
  assume a: "InsertTable d Deparse b tid controller description cs = (None, b', cs')"
  obtain fr fcs where f: "InsertTable_f d Deparse tid controller description (txn b) cs = (fr, fcs)"
    by (cases "InsertTable_f d Deparse tid controller description (txn b) cs")
  from a f have cs': "fcs = cs'"
    by (auto simp: InsertTable_def BeginFunc_def split: sum.splits)
  from a f obtain tx3 where ok: "fr = Inr tx3" "b' = b\<lparr>txn := tx3\<rparr>"
    by (auto simp: InsertTable_def BeginFunc_def split: sum.splits)
  from InsertTable_f_cases [OF f [unfolded cs']] ok
  show "\<exists>dbID tx1 tag1 tx2 tag2 query tx3 tag3.
         NumericSet d tid = Inr dbID \<and>
         Exec d (txn b) (InsertRegistry dbID controller (namePrefix cs) (structureHash cs) description)
           = Inr (tx1, tag1) \<and>
         Exec d tx1 (InsertSystemACL dbID controller [''a'', ''w'', ''d'']) = Inr (tx2, tag2) \<and>
         GetRawQueryForTableID Deparse cs tid = (Inr query, cs') \<and>
         Exec d tx2 (Query query) = Inr (tx3, tag3) \<and>
         b' = b\<lparr>txn := tx3\<rparr>"
    by auto
next
  assume "(step = ''parsing table id to numeric'' \<and> NumericSet d tid = Inl underlying \<and> cs1 = cs) \<or>
    (step = ''inserting new table in system-wide registry'' \<and>
       (\<exists>dbID. NumericSet d tid = Inr dbID \<and>
          Exec d (txn b) (InsertRegistry dbID controller (namePrefix cs) (structureHash cs)
                            description) = Inl underlying) \<and> cs1 = cs) \<or>
    (step = ''inserting new entry into system acl'' \<and>
       (\<exists>dbID tx1 tag1. NumericSet d tid = Inr dbID \<and>
          Exec d (txn b) (InsertRegistry dbID controller (namePrefix cs) (structureHash cs)
                            description) = Inr (tx1, tag1) \<and>
          Exec d tx1 (InsertSystemACL dbID controller [''a'', ''w'', ''d'']) = Inl underlying) \<and>
       cs1 = cs) \<or>
    (step = ''get query for table id'' \<and>
       (\<exists>dbID tx1 tag1 tx2 tag2. NumericSet d tid = Inr dbID \<and>
          Exec d (txn b) (InsertRegistry dbID controller (namePrefix cs) (structureHash cs)
                            description) = Inr (tx1, tag1) \<and>
          Exec d tx1 (InsertSystemACL dbID controller [''a'', ''w'', ''d'']) = Inr (tx2, tag2)) \<and>
       GetRawQueryForTableID Deparse cs tid = (Inl underlying, cs1)) \<or>
    (step = ''exec CREATE statement'' \<and>
       (\<exists>dbID tx1 tag1 tx2 tag2 query. NumericSet d tid = Inr dbID \<and>
          Exec d (txn b) (InsertRegistry dbID controller (namePrefix cs) (structureHash cs)
                            description) = Inr (tx1, tag1) \<and>
          Exec d tx1 (InsertSystemACL dbID controller [''a'', ''w'', ''d'']) = Inr (tx2, tag2) \<and>
          GetRawQueryForTableID Deparse cs tid = (Inr query, cs1) \<and>
          Exec d tx2 (Query query) = Inl underlying))"
  then show "InsertTable d Deparse b tid controller description cs
        = (Some (Errorf_s ''processing register table'' (Errorf_s step underlying)), b, cs1)"
    unfolding InsertTable_def BeginFunc_def InsertTable_f_def GetNamePrefix_def
      GetStructureHash_def
    by (elim disjE exE conjE) (simp_all del: GetRawQueryForTableID.simps)
next
  show "Errorf_s ''processing register table'' (Errorf_s step underlying) \<noteq> underlying"
    by (rule Errorf_s_twice_neq)
next
  show "cause (Errorf_s ''processing register table'' (Errorf_s step underlying))
        = Errorf_s ''processing register table'' (Errorf_s step underlying)"
    by simp
qed

theorem C8_InsertTable_witness:
  "InsertTable mem_deps sample_Deparse_create \<lparr>txn = empty_store\<rparr> 5 ''0xabc'' ''a table''
     accepted_create_foo
   = (None,
      \<lparr>txn = \<lparr>mem_registry =
                 [(''5'', ''0xabc'', ''foo'',
                   hex_EncodeToString (sha256_Sum (str_bytes ''a:int4,b:text'')), ''a table'')],
               mem_system_acl = [(''5'', ''0xabc'', [''a'', ''w'', ''d''])],
               mem_created = [''CREATE TABLE t0x0000000000000005 (a int, b text)''],
               mem_rows = 0\<rparr>\<rparr>,
      accepted_create_foo
        \<lparr>cNode := N_CreateStmt (RangeVar ''t0x0000000000000005'')
                    [N_ColumnDef ''a'' (Some [N_String ''pg_catalog'', N_String ''int4'']) [],
                     N_ColumnDef ''b'' (Some [N_String ''text'']) []] None\<rparr>) \<and>
   NumericSet mem_deps 2 = Inr ''2'' \<and>
   Exec mem_deps (txn \<lparr>txn = store_9_rows\<rparr>)
     (InsertRegistry ''2'' ''0xabc'' (namePrefix accepted_create_foo)
        (structureHash accepted_create_foo) ''a table'')
     = Inl (ErrorNew ''duplicate key value violates unique constraint'') \<and>
   InsertTable mem_deps sample_Deparse_create \<lparr>txn = store_9_rows\<rparr> 2 ''0xabc'' ''a table''
     accepted_create_foo
   = (Some (Errorf_s ''processing register table''
             (Errorf_s ''inserting new table in system-wide registry''
               (ErrorNew ''duplicate key value violates unique constraint''))),
      \<lparr>txn = store_9_rows\<rparr>, accepted_create_foo)"
proof -
  note ok = C8_InsertTable [THEN conjunct1, THEN mp, OF sample_InsertTable_ok]
  have h: "\<exists>dbID. NumericSet mem_deps 2 = Inr dbID \<and>
          Exec mem_deps (txn \<lparr>txn = store_9_rows\<rparr>)
            (InsertRegistry dbID ''0xabc'' (namePrefix accepted_create_foo)
               (structureHash accepted_create_foo) ''a table'')
          = Inl (ErrorNew ''duplicate key value violates unique constraint'')"
    using sample_registry_duplicate by blast
  from C8_InsertTable [THEN conjunct2, THEN mp,
         of "''inserting new table in system-wide registry''" mem_deps 2
            "ErrorNew ''duplicate key value violates unique constraint''"
            accepted_create_foo accepted_create_foo "\<lparr>txn = store_9_rows\<rparr>" "''0xabc''"
            "''a table''" sample_Deparse_create] h
  have bad: "InsertTable mem_deps sample_Deparse_create \<lparr>txn = store_9_rows\<rparr> 2 ''0xabc''
               ''a table'' accepted_create_foo
             = (Some (Errorf_s ''processing register table''
                       (Errorf_s ''inserting new table in system-wide registry''
                         (ErrorNew ''duplicate key value violates unique constraint''))),
                \<lparr>txn = store_9_rows\<rparr>, accepted_create_foo)"
    by blast
  from ok sample_InsertTable_ok sample_registry_duplicate bad show ?thesis by blast
qed

subsection \<open>The row count cap\<close>

lemma is_ErrRowCountExceeded_iff:
  "is_ErrRowCountExceeded e \<longleftrightarrow> (\<exists>b a. e = ErrRowCountExceeded b a)"
  by (cases e) simp_all

lemma executeWriteStmt_RowCountExceeded:
  "executeWriteStmt d maxRowCount tx ws controller beforeRowCount = Inl (ErrRowCountExceeded x y) \<longleftrightarrow>
     CheckPrivileges d tx controller (ws_TableID ws) (ws_Operation ws) = None \<and>
     (\<exists>desugared tx' cmdTag.
        ws_DesugaredQuery ws = Inr desugared \<and>
        Exec d tx (Query desugared) = Inr (tx', cmdTag) \<and>
        0 <s maxRowCount \<and> Insert cmdTag \<and> x = beforeRowCount \<and>
        y = beforeRowCount + RowsAffected cmdTag \<and> maxRowCount <s y)"
  by (auto simp: executeWriteStmt_def Let_def split: option.splits sum.splits prod.splits if_splits)

lemma sless_add_no_overflow:
  fixes a b m :: "64 word"
  shows "- (2 ^ 63) \<le> sint a + sint b \<Longrightarrow> sint a + sint b < 2 ^ 63 \<Longrightarrow>
         (m <s a + b \<longleftrightarrow> sint m < sint a + sint b)"
  by (simp add: word_sless_alt sint_word_ariths signed_take_bit_int_eq_self)

lemma execMutatingStmts_append:
  "execMutatingStmts d m c dbName bf tx (pre @ rest)
     = (case execMutatingStmts d m c dbName bf tx pre of
          Inl e \<Rightarrow> Inl e
        | Inr tx' \<Rightarrow> execMutatingStmts d m c dbName bf tx' rest)"
  by (induction pre arbitrary: tx)
     (auto simp: Let_def split: sum.splits SugaredMutatingStmt.splits)

lemma execMutatingStmts_cause:
  "execMutatingStmts d m c dbName bf tx mqs = Inl e \<Longrightarrow> cause e = ErrRowCountExceeded x y \<Longrightarrow>
   e = ErrRowCountExceeded x y \<and>
   (\<exists>ws tx'. WriteStmt ws \<in> set mqs \<and>
      executeWriteStmt d m tx' ws c bf = Inl (ErrRowCountExceeded x y))"
proof (induction mqs arbitrary: tx)
  case Nil
  then show ?case by simp
next
  case (Cons mq rest)
  show ?case
  proof (cases mq)
    case (GrantStmt gs)
    with Cons.prems Cons.IH show ?thesis
      by (auto simp: Let_def split: if_splits sum.splits)
  next
    case (WriteStmt ws)
    show ?thesis
    proof (cases "executeWriteStmt d m tx ws c bf")
      case (Inl err)
      with Cons.prems WriteStmt have r: "is_ErrRowCountExceeded err" and ee: "e = err"
        by (auto simp: Let_def split: if_splits)
      from r ee Cons.prems(2) have "e = ErrRowCountExceeded x y"
        by (auto simp: is_ErrRowCountExceeded_iff)
      moreover from this ee Inl have
        "executeWriteStmt d m tx ws c bf = Inl (ErrRowCountExceeded x y)" by simp
      ultimately show ?thesis using WriteStmt by auto
    next
      case (Inr tx2)
      with Cons.prems WriteStmt have "execMutatingStmts d m c dbName bf tx2 rest = Inl e"
        by (auto simp: Let_def split: if_splits)
      from Cons.IH [OF this Cons.prems(2)] show ?thesis by auto
    qed
  next
    case (OtherStmt name tid)
    with Cons.prems show ?thesis
      by (auto simp: Let_def split: if_splits)
  qed
qed

lemma ExecWriteQueries_error:
  "ExecWriteQueries d tp b controller mqueries = (Some err, b') \<Longrightarrow>
   b' = b \<and>
   (\<exists>e. err = Errorf_w ''running nested txn'' e \<and>
        (fst (ExecWriteQueries_f d (maxTableRowCount tp) controller mqueries (txn b) ()) = Inl e))"
  by (auto simp: ExecWriteQueries_def BeginFunc_def split: prod.splits sum.splits)

lemma ExecWriteQueries_f_cause:
  "fst (ExecWriteQueries_f d m c mqs tx ()) = Inl e \<Longrightarrow> cause e = ErrRowCountExceeded x y \<Longrightarrow>
   e = ErrRowCountExceeded x y \<and>
   (\<exists>ws tx' bf. WriteStmt ws \<in> set mqs \<and>
      executeWriteStmt d m tx' ws c bf = Inl (ErrRowCountExceeded x y))"
proof -
  assume a: "fst (ExecWriteQueries_f d m c mqs tx ()) = Inl e" and b: "cause e = ErrRowCountExceeded x y"
  show ?thesis
  proof (cases mqs)
    case Nil
    with a show ?thesis by (simp add: ExecWriteQueries_f_def)
  next
    case (Cons mq0 others)
    show ?thesis
    proof (cases "GetTableNameAndRowCountByTableID d tx (mq_TableID mq0)")
      case (Inl err)
      with a b Cons show ?thesis by (auto simp: ExecWriteQueries_f_def)
    next
      case (Inr nb)
      obtain dbName bf where nb: "nb = (dbName, bf)" by (cases nb)
      from a Cons Inr nb have "execMutatingStmts d m c dbName bf tx mqs = Inl e"
        by (simp add: ExecWriteQueries_f_def)
      from execMutatingStmts_cause [OF this b] show ?thesis by blast
    qed
  qed
qed

lemma ExecWriteQueries_RowCountExceeded:
  "GetTableNameAndRowCountByTableID d (txn b) (mq_TableID (hd (pre @ WriteStmt ws # post)))
     = Inr (dbName, beforeRowCount) \<Longrightarrow>
   execMutatingStmts d (maxTableRowCount tp) controller dbName beforeRowCount (txn b) pre = Inr txk \<Longrightarrow>
   ws_NamePrefix ws = [] \<or> dbName = ws_NamePrefix ws \<Longrightarrow>
   executeWriteStmt d (maxTableRowCount tp) txk ws controller beforeRowCount
     = Inl (ErrRowCountExceeded x y) \<Longrightarrow>
   ExecWriteQueries d tp b controller (pre @ WriteStmt ws # post)
     = (Some (Errorf_w ''running nested txn'' (ErrRowCountExceeded x y)), b)"
proof -
  assume g: "GetTableNameAndRowCountByTableID d (txn b) (mq_TableID (hd (pre @ WriteStmt ws # post)))
     = Inr (dbName, beforeRowCount)"
    and p: "execMutatingStmts d (maxTableRowCount tp) controller dbName beforeRowCount (txn b) pre = Inr txk"
    and n: "ws_NamePrefix ws = [] \<or> dbName = ws_NamePrefix ws"
    and e: "executeWriteStmt d (maxTableRowCount tp) txk ws controller beforeRowCount
     = Inl (ErrRowCountExceeded x y)"
  have loop: "execMutatingStmts d (maxTableRowCount tp) controller dbName beforeRowCount (txn b)
                (pre @ WriteStmt ws # post) = Inl (ErrRowCountExceeded x y)"
    using p n e by (auto simp: execMutatingStmts_append Let_def)
  obtain mq0 others where l: "pre @ WriteStmt ws # post = mq0 # others"
    by (cases "pre @ WriteStmt ws # post") auto
  have "ExecWriteQueries_f d (maxTableRowCount tp) controller (pre @ WriteStmt ws # post) (txn b) ()
          = (Inl (ErrRowCountExceeded x y), ())"
    using g loop unfolding l by (simp add: ExecWriteQueries_f_def)
  then show ?thesis
    by (simp add: ExecWriteQueries_def BeginFunc_def)
qed

text \<open>
  Claim C4, amended. \<open>executeWriteStmt\<close> returns \<open>ErrRowCountExceeded x y\<close> exactly when
  the privilege check passed, the statement was executed, \<open>maxTableRowCount > 0\<close>, the
  command was an INSERT, \<open>x\<close> is the row count before, \<open>y\<close> is \<open>x\<close> plus the rows affected
  (in 64 bits; the mathematical sum when that does not overflow) and \<open>y > maxTableRowCount\<close>.
  When the loop of \<open>ExecWriteQueries\<close> reaches such a statement, \<open>ExecWriteQueries\<close>
  returns that error wrapped once, by \<open>%w\<close> under the context \<open>running nested txn\<close>, with
  the batch's state unchanged. Any error of \<open>ExecWriteQueries\<close> leaves the state
  unchanged and carries that context; one whose \<open>%w\<close> chain ends in
  \<open>ErrRowCountExceeded x y\<close> is exactly that wrapped error, and came from
  \<open>executeWriteStmt\<close> on a write statement of the batch.
\<close>

theorem C4_RowCountExceeded:
  "(executeWriteStmt d maxRowCount tx ws controller beforeRowCount = Inl (ErrRowCountExceeded x y) \<longleftrightarrow>
      CheckPrivileges d tx controller (ws_TableID ws) (ws_Operation ws) = None \<and>
      (\<exists>desugared tx' cmdTag.
         ws_DesugaredQuery ws = Inr desugared \<and>
         Exec d tx (Query desugared) = Inr (tx', cmdTag) \<and>
         0 <s maxRowCount \<and> Insert cmdTag \<and> x = beforeRowCount \<and>
         y = beforeRowCount + RowsAffected cmdTag \<and> maxRowCount <s y)) \<and>
   (- (2 ^ 63) \<le> sint beforeRowCount + sint rows \<and> sint beforeRowCount + sint rows < 2 ^ 63 \<longrightarrow>
      (maxRowCount <s beforeRowCount + rows \<longleftrightarrow> sint maxRowCount < sint beforeRowCount + sint rows)) \<and>
   (GetTableNameAndRowCountByTableID d (txn b) (mq_TableID (hd (pre @ WriteStmt ws # post)))
       = Inr (dbName, beforeRowCount) \<and>
    execMutatingStmts d (maxTableRowCount tp) controller dbName beforeRowCount (txn b) pre = Inr txk \<and>
    (ws_NamePrefix ws = [] \<or> dbName = ws_NamePrefix ws) \<and>
    executeWriteStmt d (maxTableRowCount tp) txk ws controller beforeRowCount
       = Inl (ErrRowCountExceeded x y)
    \<longrightarrow> ExecWriteQueries d tp b controller (pre @ WriteStmt ws # post)
          = (Some (Errorf_w ''running nested txn'' (ErrRowCountExceeded x y)), b)) \<and>
   (ExecWriteQueries d tp b controller mqueries = (Some err, b') \<longrightarrow>
      b' = b \<and> (\<exists>e. err = Errorf_w ''running nested txn'' e) \<and>
      (cause err = ErrRowCountExceeded x y \<longrightarrow>
         err = Errorf_w ''running nested txn'' (ErrRowCountExceeded x y) \<and>
         (\<exists>ws' tx' bf. WriteStmt ws' \<in> set mqueries \<and>
            executeWriteStmt d (maxTableRowCount tp) tx' ws' controller bf
              = Inl (ErrRowCountExceeded x y))))"
proof (intro conjI)
  show "executeWriteStmt d maxRowCount tx ws controller beforeRowCount = Inl (ErrRowCountExceeded x y) \<longleftrightarrow>
      CheckPrivileges d tx controller (ws_TableID ws) (ws_Operation ws) = None \<and>
      (\<exists>desugared tx' cmdTag.
         ws_DesugaredQuery ws = Inr desugared \<and>
         Exec d tx (Query desugared) = Inr (tx', cmdTag) \<and>
         0 <s maxRowCount \<and> Insert cmdTag \<and> x = beforeRowCount \<and>
         y = beforeRowCount + RowsAffected cmdTag \<and> maxRowCount <s y)"
    by (rule executeWriteStmt_RowCountExceeded)
next
  show "- (2 ^ 63) \<le> sint beforeRowCount + sint rows \<and> sint beforeRowCount + sint rows < 2 ^ 63 \<longrightarrow>
      (maxRowCount <s beforeRowCount + rows \<longleftrightarrow> sint maxRowCount < sint beforeRowCount + sint rows)"
    using sless_add_no_overflow [of beforeRowCount rows maxRowCount] by blast
next
  show "GetTableNameAndRowCountByTableID d (txn b) (mq_TableID (hd (pre @ WriteStmt ws # post)))
       = Inr (dbName, beforeRowCount) \<and>
    execMutatingStmts d (maxTableRowCount tp) controller dbName beforeRowCount (txn b) pre = Inr txk \<and>
    (ws_NamePrefix ws = [] \<or> dbName = ws_NamePrefix ws) \<and>
    executeWriteStmt d (maxTableRowCount tp) txk ws controller beforeRowCount
       = Inl (ErrRowCountExceeded x y)
    \<longrightarrow> ExecWriteQueries d tp b controller (pre @ WriteStmt ws # post)
          = (Some (Errorf_w ''running nested txn'' (ErrRowCountExceeded x y)), b)"
    using ExecWriteQueries_RowCountExceeded [of d b pre ws post dbName beforeRowCount tp controller txk x y]
    by blast
next
  show "ExecWriteQueries d tp b controller mqueries = (Some err, b') \<longrightarrow>
      b' = b \<and> (\<exists>e. err = Errorf_w ''running nested txn'' e) \<and>
      (cause err = ErrRowCountExceeded x y \<longrightarrow>
         err = Errorf_w ''running nested txn'' (ErrRowCountExceeded x y) \<and>
         (\<exists>ws' tx' bf. WriteStmt ws' \<in> set mqueries \<and>
            executeWriteStmt d (maxTableRowCount tp) tx' ws' controller bf
              = Inl (ErrRowCountExceeded x y)))"
  proof
    assume r: "ExecWriteQueries d tp b controller mqueries = (Some err, b')"
    from ExecWriteQueries_error [OF r] obtain e where
      b: "b' = b" and w: "err = Errorf_w ''running nested txn'' e"
      and f: "fst (ExecWriteQueries_f d (maxTableRowCount tp) controller mqueries (txn b) ()) = Inl e"
      by blast
    have "cause err = ErrRowCountExceeded x y \<longrightarrow>
         err = Errorf_w ''running nested txn'' (ErrRowCountExceeded x y) \<and>
         (\<exists>ws' tx' bf. WriteStmt ws' \<in> set mqueries \<and>
            executeWriteStmt d (maxTableRowCount tp) tx' ws' controller bf
              = Inl (ErrRowCountExceeded x y))"
    proof
      assume "cause err = ErrRowCountExceeded x y"
      then have "cause e = ErrRowCountExceeded x y" using w by simp
      from ExecWriteQueries_f_cause [OF f this] w show
        "err = Errorf_w ''running nested txn'' (ErrRowCountExceeded x y) \<and>
         (\<exists>ws' tx' bf. WriteStmt ws' \<in> set mqueries \<and>
            executeWriteStmt d (maxTableRowCount tp) tx' ws' controller bf
              = Inl (ErrRowCountExceeded x y))"
        by blast
    qed
    with b w show "b' = b \<and> (\<exists>e. err = Errorf_w ''running nested txn'' e) \<and>
      (cause err = ErrRowCountExceeded x y \<longrightarrow>
         err = Errorf_w ''running nested txn'' (ErrRowCountExceeded x y) \<and>
         (\<exists>ws' tx' bf. WriteStmt ws' \<in> set mqueries \<and>
            executeWriteStmt d (maxTableRowCount tp) tx' ws' controller bf
              = Inl (ErrRowCountExceeded x y)))"
      by blast
  qed
qed

lemma sample_lookup:
  "GetTableNameAndRowCountByTableID mem_deps store_9_rows 2 = Inr (''foo'', 9)"
  by (simp add: GetTableNameAndRowCountByTableID_def mem_deps_def to_dec_2 mem_QueryRowScan_def
        store_9_rows_def)

lemma sample_two_row_insert:
  "executeWriteStmt mem_deps 10 store_9_rows two_row_insert ''0xabc'' 9
     = Inl (ErrRowCountExceeded 9 11)"
  by (simp add: executeWriteStmt_def mem_deps_def mem_Exec_def two_row_insert_def
        store_9_rows_def word_sless_alt)

theorem C4_RowCountExceeded_witness:
  "executeWriteStmt mem_deps 10 store_9_rows two_row_insert ''0xabc'' 9
     = Inl (ErrRowCountExceeded 9 11) \<and>
   ((10 :: 64 word) <s 9 + 2 \<longleftrightarrow> sint (10 :: 64 word) < sint (9 :: 64 word) + sint (2 :: 64 word)) \<and>
   ExecWriteQueries mem_deps processor_max_10 \<lparr>txn = store_9_rows\<rparr> ''0xabc''
       ([] @ WriteStmt two_row_insert # [])
     = (Some (Errorf_w ''running nested txn'' (ErrRowCountExceeded 9 11)), \<lparr>txn = store_9_rows\<rparr>) \<and>
   cause (Errorf_w ''running nested txn'' (ErrRowCountExceeded 9 11)) = ErrRowCountExceeded 9 11"
proof -
  note t = C4_RowCountExceeded
    [where d = mem_deps and maxRowCount = 10 and tx = store_9_rows and ws = two_row_insert
       and controller = "''0xabc''" and beforeRowCount = 9 and x = 9 and y = 11 and rows = 2
       and b = "\<lparr>txn = store_9_rows\<rparr>" and pre = "[]" and post = "[]" and dbName = "''foo''"
       and tp = processor_max_10 and txk = store_9_rows
       and mqueries = "[] @ WriteStmt two_row_insert # []"
       and err = "Errorf_w ''running nested txn'' (ErrRowCountExceeded 9 11)"
       and b' = "\<lparr>txn = store_9_rows\<rparr>"]
  have n: "ws_NamePrefix two_row_insert = ''foo''" and i: "ws_TableID two_row_insert = 2"
    by (simp_all add: two_row_insert_def)
  have m: "maxTableRowCount processor_max_10 = 10"
    by (simp add: processor_max_10_def)
  from t sample_two_row_insert sample_lookup n i m show ?thesis by simp
qed

text \<open>
  Claim C4, as stated: \<open>ExecWriteQueries\<close> surfaces \<open>ErrRowCountExceeded\<close> to the caller as
  itself, without wrapping. With a cap of 10 rows and 9 rows in the table, an INSERT of
  two rows fails and leaves the state unchanged, but what \<open>ExecWriteQueries\<close> returns is
  the error wrapped in \<open>running nested txn: %w\<close>, not the \<open>ErrRowCountExceeded\<close> value.
\<close>

theorem C4_RowCountExceeded_counterexample:
  "ExecWriteQueries mem_deps processor_max_10 \<lparr>txn = store_9_rows\<rparr> ''0xabc''
       [WriteStmt two_row_insert]
     = (Some (Errorf_w ''running nested txn'' (ErrRowCountExceeded 9 11)), \<lparr>txn = store_9_rows\<rparr>) \<and>
   Errorf_w ''running nested txn'' (ErrRowCountExceeded 9 11) \<noteq> ErrRowCountExceeded 9 11"
  by (simp add: ExecWriteQueries_def ExecWriteQueries_f_def BeginFunc_def
        GetTableNameAndRowCountByTableID_def mem_QueryRowScan_def to_dec_2
        two_row_insert_def processor_max_10_def executeWriteStmt_def mem_deps_def mem_Exec_def
        store_9_rows_def word_sless_alt)

text \<open>
  Claim C1: after a batch that commits successfully, the row count of the table it
  touched is at most \<open>MaxRowCount\<close> when the cap is positive, also for a batch of several
  INSERT statements. The code breaks this: every statement of a batch is checked against
  the row count read once, before the first statement, so two INSERTs of one row each on
  a table of 9 rows both pass a cap of 10 (9 + 1 each time), the batch commits, and the
  table holds 11 rows.
\<close>

theorem C1_two_inserts_exceed_the_cap:
  "ExecWriteQueries mem_deps processor_max_10 \<lparr>txn = store_9_rows\<rparr> ''0xabc''
       [WriteStmt one_row_insert, WriteStmt one_row_insert]
     = (None, \<lparr>txn = store_9_rows\<lparr>mem_rows := 11\<rparr>\<rparr>) \<and>
   batch_Commit store_9_rows \<lparr>txn = store_9_rows\<lparr>mem_rows := 11\<rparr>\<rparr> None
     = (None, store_9_rows\<lparr>mem_rows := 11\<rparr>) \<and>
   GetTableNameAndRowCountByTableID mem_deps (store_9_rows\<lparr>mem_rows := 11\<rparr>) 2
     = Inr (''foo'', 11) \<and>
   (0 :: 64 word) <s maxTableRowCount processor_max_10 \<and>
   maxTableRowCount processor_max_10 <s (11 :: 64 word)"
  by (simp add: ExecWriteQueries_def ExecWriteQueries_f_def BeginFunc_def batch_Commit_def
        GetTableNameAndRowCountByTableID_def mem_QueryRowScan_def to_dec_2
        one_row_insert_def processor_max_10_def executeWriteStmt_def mem_deps_def mem_Exec_def
        store_9_rows_def word_sless_alt)

end
